theory Spec2Isabelle
  imports Main
begin

section \<open>JavaScript dates\<close>

text \<open>
  The application is TypeScript running in a browser. Its calendar logic works on
  JavaScript \<open>Date\<close> objects. A \<open>Date\<close> holds a time value: a number of
  milliseconds since 1970-01-01T00:00:00Z, or NaN (an "Invalid Date"). The model is
  \<open>int option\<close>, with \<open>None\<close> for the invalid date.

  The local time zone is a parameter \<open>tz\<close>: the zone's offset from UTC in minutes,
  positive east of Greenwich (so \<open>getTimezoneOffset()\<close> is \<open>- tz\<close>). This
  offset is fixed. The calendar page's loop, whose steps depend on the changes of the
  offset, is modelled a second time in a zone with daylight-saving time (the functions
  with the suffix \<open>_in\<close>), of which the zone with a fixed offset is the special
  case.
\<close>

type_synonym jsdate = "int option"

definition msPerDay :: int where
  "msPerDay = 86400000"

definition msPerHour :: int where
  "msPerHour = 3600000"

definition msPerMinute :: int where
  "msPerMinute = 60000"

definition msPerSecond :: int where
  "msPerSecond = 1000"

definition LocalTime :: "int \<Rightarrow> int \<Rightarrow> int" where
  "LocalTime tz t = t + tz * msPerMinute"

definition UTC :: "int \<Rightarrow> int \<Rightarrow> int" where
  "UTC tz t = t - tz * msPerMinute"

definition Day :: "int \<Rightarrow> int" where
  "Day t = t div msPerDay"

definition TimeWithinDay :: "int \<Rightarrow> int" where
  "TimeWithinDay t = t mod msPerDay"

definition WeekDay :: "int \<Rightarrow> int" where
  "WeekDay t = (Day t + 4) mod 7"

subsection \<open>The proleptic Gregorian calendar\<close>

text \<open>
  Day numbers count days from 1970-01-01. \<open>civil_from_days\<close> gives the year, the
  month (1 to 12) and the day of the month of a day number; \<open>days_from_civil\<close> is
  the way back (ECMAScript's \<open>MakeDay\<close>, which also accepts a day of the month
  outside the month and then counts on into the neighbouring months). Both work on
  years that start on 1 March, inside a 400-year era of 146097 days.
\<close>

definition doe_split :: "int \<Rightarrow> int \<times> int" where
  "doe_split r =
     (let c = min (r div 36524) 3;
          r1 = r - c * 36524;
          q = min (r1 div 1461) 24;
          r2 = r1 - q * 1461;
          yr = min (r2 div 365) 3
      in (100 * c + 4 * q + yr, r2 - yr * 365))"

definition civil_from_days :: "int \<Rightarrow> int \<times> int \<times> int" where
  "civil_from_days n =
     (let z = n + 719468;
          era = z div 146097;
          (yoe, doy) = doe_split (z mod 146097);
          y = 400 * era + yoe;
          mp = (5 * doy + 2) div 153;
          d = doy - (153 * mp + 2) div 5 + 1;
          m = (if mp < 10 then mp + 3 else mp - 9)
      in (if m \<le> 2 then y + 1 else y, m, d))"

definition days_from_civil :: "int \<Rightarrow> int \<Rightarrow> int \<Rightarrow> int" where
  "days_from_civil y m d =
     (let y' = (if m \<le> 2 then y - 1 else y);
          era = y' div 400;
          yoe = y' mod 400;
          mp = (if m > 2 then m - 3 else m + 9);
          doy = (153 * mp + 2) div 5 + d - 1;
          doe = yoe * 365 + yoe div 4 - yoe div 100 + doy
      in era * 146097 + doe - 719468)"

subsection \<open>The methods of \<open>Date\<close> the application calls\<close>

text \<open>
  The getters read the fields of the local time; \<open>getMonth\<close> counts from 0.
  \<open>setDate\<close> replaces the day of the month and keeps the local time of day.
\<close>

definition getFullYear :: "int \<Rightarrow> int \<Rightarrow> int" where
  "getFullYear tz t = (case civil_from_days (Day (LocalTime tz t)) of (y, m, d) \<Rightarrow> y)"

definition getMonth :: "int \<Rightarrow> int \<Rightarrow> int" where
  "getMonth tz t = (case civil_from_days (Day (LocalTime tz t)) of (y, m, d) \<Rightarrow> m - 1)"

definition getDate :: "int \<Rightarrow> int \<Rightarrow> int" where
  "getDate tz t = (case civil_from_days (Day (LocalTime tz t)) of (y, m, d) \<Rightarrow> d)"

definition getDay :: "int \<Rightarrow> int \<Rightarrow> int" where
  "getDay tz t = WeekDay (LocalTime tz t)"

definition getHours :: "int \<Rightarrow> int \<Rightarrow> int" where
  "getHours tz t = TimeWithinDay (LocalTime tz t) div msPerHour"

definition getMinutes :: "int \<Rightarrow> int \<Rightarrow> int" where
  "getMinutes tz t = (TimeWithinDay (LocalTime tz t) div msPerMinute) mod 60"

definition setDate :: "int \<Rightarrow> int \<Rightarrow> int \<Rightarrow> int" where
  "setDate tz t dt =
     (let lt = LocalTime tz t
      in case civil_from_days (Day lt) of
           (y, m, d) \<Rightarrow> UTC tz (days_from_civil y m dt * msPerDay + TimeWithinDay lt))"

definition setHours :: "int \<Rightarrow> int \<Rightarrow> int \<Rightarrow> int \<Rightarrow> int \<Rightarrow> int \<Rightarrow> int" where
  "setHours tz t h mi s ms =
     UTC tz (Day (LocalTime tz t) * msPerDay
               + h * msPerHour + mi * msPerMinute + s * msPerSecond + ms)"

subsection \<open>Facts about the calendar\<close>

lemma yoe_div:
  fixes c q yr :: int
  assumes "0 \<le> c" "0 \<le> q" "q \<le> 24" "0 \<le> yr" "yr \<le> 3"
  shows "(100 * c + 4 * q + yr) div 4 = 25 * c + q"
    and "(100 * c + 4 * q + yr) div 100 = c"
proof -
  have "(100 * c + 4 * q + yr) div 4 = (4 * (25 * c + q) + yr) div 4" by simp
  also have "\<dots> = (25 * c + q) + yr div 4"
    by (rule div_mult_self4) simp
  also have "yr div 4 = 0" using assms by simp
  finally show "(100 * c + 4 * q + yr) div 4 = 25 * c + q" by simp
  have "(100 * c + 4 * q + yr) div 100 = (100 * c + (4 * q + yr)) div 100"
    by (simp add: add.assoc)
  also have "\<dots> = c + (4 * q + yr) div 100"
    by (rule div_mult_self4) simp
  also have "(4 * q + yr) div 100 = 0" using assms by simp
  finally show "(100 * c + 4 * q + yr) div 100 = c" by simp
qed

lemma capped_div:
  fixes r k cap top :: int
  assumes "0 \<le> r" "0 < k" "0 \<le> cap" "r \<le> cap * k + top" "k - 1 \<le> top"
  shows "0 \<le> min (r div k) cap" "min (r div k) cap \<le> cap"
    "0 \<le> r - min (r div k) cap * k" "r - min (r div k) cap * k \<le> top"
proof -
  show "0 \<le> min (r div k) cap" using assms by (simp add: pos_imp_zdiv_nonneg_iff)
  show "min (r div k) cap \<le> cap" by simp
  have m: "0 \<le> r mod k" "r mod k < k" using assms(2) by simp_all
  show "0 \<le> r - min (r div k) cap * k"
  proof (cases "r div k \<le> cap")
    case True
    then have "r - min (r div k) cap * k = r mod k"
      by (simp add: min_def minus_div_mult_eq_mod)
    then show ?thesis using m by simp
  next
    case False
    then have "cap * k \<le> (r div k) * k" using assms(2) by (simp add: mult_right_mono)
    moreover have "(r div k) * k = r - r mod k" by (simp add: minus_mod_eq_div_mult)
    ultimately have "cap * k \<le> r" using m by linarith
    then show ?thesis using False by (simp add: min_def)
  qed
  show "r - min (r div k) cap * k \<le> top"
  proof (cases "r div k \<le> cap")
    case True
    then have "r - min (r div k) cap * k = r mod k"
      by (simp add: min_def minus_div_mult_eq_mod)
    then show ?thesis using m assms(5) by simp
  next
    case False
    then show ?thesis using assms(4) by (simp add: min_def)
  qed
qed

lemma doe_split_join:
  fixes r :: int
  assumes r: "0 \<le> r" "r < 146097" and s: "doe_split r = (yoe, doy)"
  shows "yoe * 365 + yoe div 4 - yoe div 100 + doy = r"
    and "0 \<le> yoe" and "yoe < 400" and "0 \<le> doy" and "doy \<le> 365"
proof -
  define c where "c = min (r div 36524) 3"
  define r1 where "r1 = r - c * 36524"
  define q where "q = min (r1 div 1461) 24"
  define r2 where "r2 = r1 - q * 1461"
  define yr where "yr = min (r2 div 365) 3"
  define doy' where "doy' = r2 - yr * 365"
  have c: "0 \<le> c" "c \<le> 3" and r1: "0 \<le> r1" "r1 \<le> 36524"
    unfolding r1_def c_def
    by (rule capped_div [where top = 36524]; use r in simp)+
  have q: "0 \<le> q" "q \<le> 24" and r2: "0 \<le> r2" "r2 \<le> 1460"
    unfolding r2_def q_def
    by (rule capped_div [where top = 1460]; use r1 in simp)+
  have yr: "0 \<le> yr" "yr \<le> 3" and doy': "0 \<le> doy'" "doy' \<le> 365"
    unfolding doy'_def yr_def
    by (rule capped_div [where top = 365]; use r2 in simp)+
  have "doe_split r = (100 * c + 4 * q + yr, doy')"
    by (simp only: doe_split_def Let_def c_def r1_def q_def r2_def yr_def doy'_def)
  with s have yoe: "yoe = 100 * c + 4 * q + yr" and doy: "doy = doy'"
    by simp_all
  show "0 \<le> doy" "doy \<le> 365" using doy' by (simp_all add: doy)
  show "0 \<le> yoe" "yoe < 400" using c q yr by (simp_all add: yoe)
  have d4: "yoe div 4 = 25 * c + q" and d100: "yoe div 100 = c"
    unfolding yoe using c q yr by (simp_all add: yoe_div)
  show "yoe * 365 + yoe div 4 - yoe div 100 + doy = r"
    unfolding d4 d100 by (simp add: yoe doy doy'_def r2_def r1_def)
qed

lemma mp_roundtrip:
  fixes doy :: int
  assumes "0 \<le> doy" "doy \<le> 365"
  defines "mp \<equiv> (5 * doy + 2) div 153"
  defines "m \<equiv> (if mp < 10 then mp + 3 else mp - 9)"
  shows "(if m > 2 then m - 3 else m + 9) = mp"
proof -
  have "0 \<le> mp" "mp \<le> 11" using assms(1,2) unfolding mp_def by auto
  then show ?thesis unfolding m_def by auto
qed

text \<open>The day number of the civil date of a day number is that day number.\<close>

lemma days_from_civil_inverse:
  assumes "civil_from_days n = (y, m, d)"
  shows "days_from_civil y m d = n"
proof -
  define z where "z = n + 719468"
  define era where "era = z div 146097"
  define r where "r = z mod 146097"
  obtain yoe doy where s: "doe_split r = (yoe, doy)" by (cases "doe_split r")
  have r: "0 \<le> r" "r < 146097" by (simp_all add: r_def)
  note j = doe_split_join [OF r s]
  define mp where "mp = (5 * doy + 2) div 153"
  define m' where "m' = (if mp < 10 then mp + 3 else mp - 9)"
  have "civil_from_days n =
      (if m' \<le> 2 then 400 * era + yoe + 1 else 400 * era + yoe, m',
       doy - (153 * mp + 2) div 5 + 1)"
    using s unfolding r_def z_def
    by (simp add: civil_from_days_def Let_def m'_def mp_def era_def z_def)
  with assms have y: "y = (if m' \<le> 2 then 400 * era + yoe + 1 else 400 * era + yoe)"
    and m: "m = m'" and d: "d = doy - (153 * mp + 2) div 5 + 1" by auto
  define y' where "y' = (if m \<le> 2 then y - 1 else y)"
  have y': "y' = era * 400 + yoe" by (simp add: y'_def y m)
  have e1: "y' div 400 = era"
    using j(2,3) unfolding y' by (simp add: div_pos_pos_trivial)
  have e2: "y' mod 400 = yoe"
    using j(2,3) unfolding y' by (simp add: mod_pos_pos_trivial)
  have e3: "(if m > 2 then m - 3 else m + 9) = mp"
    unfolding m m'_def mp_def using j(4,5) by (rule mp_roundtrip)
  have "days_from_civil y m d =
      era * 146097 + (yoe * 365 + yoe div 4 - yoe div 100 + doy) - 719468"
    unfolding days_from_civil_def Let_def y'_def [symmetric] e1 e2 e3
    by (simp add: d)
  also have "\<dots> = era * 146097 + r - 719468" by (simp only: j(1))
  also have "\<dots> = n"
    unfolding era_def r_def z_def by (simp add: algebra_simps)
  finally show ?thesis .
qed

lemma days_from_civil_shift: "days_from_civil y m (d + k) = days_from_civil y m d + k"
  by (simp add: days_from_civil_def Let_def)

text \<open>With a fixed offset, moving the day of the month on by one is a step of 24 hours.\<close>

lemma setDate_next: "setDate tz t (getDate tz t + 1) = t + msPerDay"
proof -
  obtain y m d where c: "civil_from_days (Day (LocalTime tz t)) = (y, m, d)"
    by (cases "civil_from_days (Day (LocalTime tz t))")
  have "days_from_civil y m (d + 1) = Day (LocalTime tz t) + 1"
    by (simp add: days_from_civil_shift days_from_civil_inverse [OF c])
  then have "setDate tz t (getDate tz t + 1)
      = UTC tz ((Day (LocalTime tz t) + 1) * msPerDay + TimeWithinDay (LocalTime tz t))"
    by (simp add: setDate_def getDate_def Let_def c)
  also have "\<dots> = UTC tz (LocalTime tz t + msPerDay)"
    by (simp add: Day_def TimeWithinDay_def algebra_simps)
  also have "\<dots> = t + msPerDay"
    by (simp add: UTC_def LocalTime_def)
  finally show ?thesis .
qed

lemma Day_next: "Day (t + msPerDay) = Day t + 1"
  by (simp add: Day_def msPerDay_def)

lemma LocalTime_add: "LocalTime tz (t + k) = LocalTime tz t + k"
  by (simp add: LocalTime_def)

subsection \<open>A zone with daylight-saving time\<close>

text \<open>
  A zone is its standard offset from UTC in minutes, positive east of Greenwich, and
  the set of the instants (time values) at which daylight-saving time is in force;
  daylight-saving time is one hour ahead of standard time.

  \<open>LocalTime_in\<close> is ECMAScript's \<open>LocalTime(t)\<close>, and \<open>UTC_in\<close> its
  \<open>UTC(t)\<close>, which reads a local time "using the time zone offset before the
  transition" where the local time comes twice or not at all: a local time that the
  clock shows twice, after it was set back, is the first of the two instants, and a
  local time that the clock skips, when it is set forward, is the instant one hour
  later on the clock.
\<close>

record zone =
  standard :: int
  summer :: "int \<Rightarrow> bool"

definition fixed_zone :: "int \<Rightarrow> zone" where
  "fixed_zone tz = \<lparr>standard = tz, summer = (\<lambda>t. False)\<rparr>"

definition LocalTime_in :: "zone \<Rightarrow> int \<Rightarrow> int" where
  "LocalTime_in z t = t + (standard z + (if summer z t then 60 else 0)) * msPerMinute"

definition UTC_in :: "zone \<Rightarrow> int \<Rightarrow> int" where
  "UTC_in z t =
     (if summer z (t - (standard z + 60) * msPerMinute)
      then t - (standard z + 60) * msPerMinute
      else t - standard z * msPerMinute)"

definition getDate_in :: "zone \<Rightarrow> int \<Rightarrow> int" where
  "getDate_in z t = (case civil_from_days (Day (LocalTime_in z t)) of (y, m, d) \<Rightarrow> d)"

definition getDay_in :: "zone \<Rightarrow> int \<Rightarrow> int" where
  "getDay_in z t = WeekDay (LocalTime_in z t)"

definition setDate_in :: "zone \<Rightarrow> int \<Rightarrow> int \<Rightarrow> int" where
  "setDate_in z t dt =
     (let lt = LocalTime_in z t
      in case civil_from_days (Day lt) of
           (y, m, d) \<Rightarrow> UTC_in z (days_from_civil y m dt * msPerDay + TimeWithinDay lt))"

text \<open>
  Moving the day of the month on by one gives the instant of the same local time of
  day on the next local day: 24 hours later, or 23 or 25 across a change of the offset.
\<close>

lemma setDate_in_next:
  "setDate_in z t (getDate_in z t + 1) = UTC_in z (LocalTime_in z t + msPerDay)"
proof -
  obtain y m d where c: "civil_from_days (Day (LocalTime_in z t)) = (y, m, d)"
    by (cases "civil_from_days (Day (LocalTime_in z t))")
  have "days_from_civil y m (d + 1) = Day (LocalTime_in z t) + 1"
    by (simp add: days_from_civil_shift days_from_civil_inverse [OF c])
  then have "setDate_in z t (getDate_in z t + 1)
      = UTC_in z ((Day (LocalTime_in z t) + 1) * msPerDay + TimeWithinDay (LocalTime_in z t))"
    by (simp add: setDate_in_def getDate_in_def Let_def c)
  also have "\<dots> = UTC_in z (LocalTime_in z t + msPerDay)"
    by (simp add: Day_def TimeWithinDay_def algebra_simps)
  finally show ?thesis .
qed

lemma setDate_in_advances: "t + 82800000 \<le> setDate_in z t (getDate_in z t + 1)"
  by (simp add: setDate_in_next UTC_in_def LocalTime_in_def msPerDay_def msPerMinute_def)

text \<open>In a zone that never has daylight-saving time these are the functions above.\<close>

lemma fixed_zone_LocalTime: "LocalTime_in (fixed_zone tz) t = LocalTime tz t"
  by (simp add: LocalTime_in_def LocalTime_def fixed_zone_def)

lemma fixed_zone_UTC: "UTC_in (fixed_zone tz) t = UTC tz t"
  by (simp add: UTC_in_def UTC_def fixed_zone_def)

lemma fixed_zone_setDate: "setDate_in (fixed_zone tz) t dt = setDate tz t dt"
  by (simp add: setDate_in_def setDate_def fixed_zone_LocalTime fixed_zone_UTC)

lemma fixed_zone_getDate: "getDate_in (fixed_zone tz) t = getDate tz t"
  by (simp add: getDate_in_def getDate_def fixed_zone_LocalTime)

lemma fixed_zone_getDay: "getDay_in (fixed_zone tz) t = getDay tz t"
  by (simp add: getDay_in_def getDay_def fixed_zone_LocalTime)

text \<open>
  A local time of day \<open>tod\<close> is regular in a zone when the clock shows it once on
  every day, in its turn: the instant of \<open>tod\<close> on a day has that local time (the
  clock does not skip it), and the instants from that one on are those whose local time
  is not before it (the clock does not show it twice, nor an earlier time after it).
  In a zone that changes its offset at two or three in the morning, as most do, midnight
  is regular.
\<close>

definition regular_at :: "zone \<Rightarrow> int \<Rightarrow> bool" where
  "regular_at z tod =
     ((\<forall>d. LocalTime_in z (UTC_in z (d * msPerDay + tod)) = d * msPerDay + tod)
      \<and> (\<forall>d t. (UTC_in z (d * msPerDay + tod) \<le> t)
                   = (d * msPerDay + tod \<le> LocalTime_in z t)))"

lemma fixed_zone_regular: "regular_at (fixed_zone tz) tod"
  by (auto simp: regular_at_def fixed_zone_LocalTime fixed_zone_UTC LocalTime_def UTC_def)

text \<open>
  The local days of a zone are whole when every local day is a stretch of time that
  starts at the instant of its midnight (where the clock skips midnight, the instant at
  which it does), and the same local time of day one day on is on the next local day.
  This holds unless the clock is set back across midnight, or forward to a time on the
  next day.
\<close>

definition whole_days :: "zone \<Rightarrow> bool" where
  "whole_days z =
     ((\<forall>d t. (UTC_in z (d * msPerDay) \<le> t) = (d \<le> Day (LocalTime_in z t)))
      \<and> (\<forall>t. Day (LocalTime_in z (UTC_in z (LocalTime_in z t + msPerDay)))
               = Day (LocalTime_in z t) + 1))"

lemma le_Day: "(d \<le> Day x) = (d * msPerDay \<le> x)"
proof -
  define q where "q = x div 86400000"
  define r where "r = x mod 86400000"
  have x: "x = q * 86400000 + r" and r: "0 \<le> r" "r < 86400000"
    by (simp_all add: q_def r_def)
  show ?thesis
  proof (cases "d \<le> q")
    case True
    then have "d * 86400000 \<le> q * 86400000" by simp
    then show ?thesis using True r by (simp add: Day_def msPerDay_def q_def [symmetric] x)
  next
    case False
    then have "q + 1 \<le> d" by simp
    then have "(q + 1) * 86400000 \<le> d * 86400000" by (simp only: mult_le_cancel_right) simp
    then have "\<not> d * 86400000 \<le> x" using r by (simp add: x algebra_simps)
    then show ?thesis using False by (simp add: Day_def msPerDay_def q_def [symmetric])
  qed
qed

lemma fixed_zone_whole_days: "whole_days (fixed_zone tz)"
  unfolding whole_days_def le_Day
  by (auto simp: fixed_zone_LocalTime fixed_zone_UTC LocalTime_def UTC_def Day_def msPerDay_def)

section \<open>Strings of digits\<close>

text \<open>
  \<open>Number_toString\<close> is \<open>Number.prototype.toString\<close> on an integer,
  \<open>padStart\<close> is \<open>String.prototype.padStart\<close> with a one-character filler,
  and \<open>split_first\<close> is \<open>s.split(c)[0]\<close>: the part of \<open>s\<close> before the
  first \<open>c\<close>.
\<close>

definition char_of_digit :: "nat \<Rightarrow> char" where
  "char_of_digit n = char_of (48 + n)"

definition digit_of_char :: "char \<Rightarrow> nat option" where
  "digit_of_char c =
     (let n = (of_char c :: nat) in if 48 \<le> n \<and> n \<le> 57 then Some (n - 48) else None)"

fun nat_to_string :: "nat \<Rightarrow> string" where
  "nat_to_string n =
     (if n < 10 then [char_of_digit n]
      else nat_to_string (n div 10) @ [char_of_digit (n mod 10)])"

declare nat_to_string.simps [simp del]

definition Number_toString :: "int \<Rightarrow> string" where
  "Number_toString i =
     (if i < 0 then CHR ''-'' # nat_to_string (nat (- i)) else nat_to_string (nat i))"

definition padStart :: "nat \<Rightarrow> char \<Rightarrow> string \<Rightarrow> string" where
  "padStart n c s = replicate (n - length s) c @ s"

definition split_first :: "char \<Rightarrow> string \<Rightarrow> string" where
  "split_first c s = takeWhile (\<lambda>x. x \<noteq> c) s"

fun parse_digits :: "string \<Rightarrow> nat \<Rightarrow> nat option" where
  "parse_digits [] acc = Some acc"
| "parse_digits (c # cs) acc =
     (case digit_of_char c of
        None \<Rightarrow> None
      | Some d \<Rightarrow> parse_digits cs (10 * acc + d))"

definition parse_nat :: "string \<Rightarrow> nat option" where
  "parse_nat s = (if s = [] then None else parse_digits s 0)"

subsection \<open>Parsing and printing dates\<close>

text \<open>
  \<open>new Date(s)\<close> on a string reads ECMAScript's date-time string format. The
  application builds dates from two shapes only, and only these are modelled:
  \<^item> the date-only form \<open>YYYY-MM-DD\<close>, which ECMAScript reads as midnight UTC;
  \<^item> the date-time form \<open>YYYY-MM-DDTHH:mm:ss\<close> with no offset, which ECMAScript
    reads as local time.
  The month is 01 to 12, the day 01 to 31 and the time of day 00:00:00 to 24:00:00, as
  the format says. Any other string is outside the format, where engines differ; the
  model returns the invalid date.
\<close>

definition parse_date_fields :: "string \<Rightarrow> (int \<times> int \<times> int) option" where
  "parse_date_fields s =
     (if length s = 10 \<and> s ! 4 = CHR ''-'' \<and> s ! 7 = CHR ''-'' then
        (case (parse_nat (take 4 s), parse_nat (take 2 (drop 5 s)), parse_nat (drop 8 s)) of
           (Some y, Some m, Some d) \<Rightarrow>
             if 1 \<le> m \<and> m \<le> 12 \<and> 1 \<le> d \<and> d \<le> 31
             then Some (int y, int m, int d) else None
         | _ \<Rightarrow> None)
      else None)"

definition parse_time_fields :: "string \<Rightarrow> int option" where
  "parse_time_fields s =
     (if length s = 9 \<and> s ! 0 = CHR ''T'' \<and> s ! 3 = CHR '':'' \<and> s ! 6 = CHR '':'' then
        (case (parse_nat (take 2 (drop 1 s)), parse_nat (take 2 (drop 4 s)),
               parse_nat (drop 7 s)) of
           (Some h, Some mi, Some sec) \<Rightarrow>
             if (h \<le> 23 \<and> mi \<le> 59 \<and> sec \<le> 59) \<or> (h = 24 \<and> mi = 0 \<and> sec = 0)
             then Some (int h * msPerHour + int mi * msPerMinute + int sec * msPerSecond)
             else None
         | _ \<Rightarrow> None)
      else None)"

definition Date_parse :: "int \<Rightarrow> string \<Rightarrow> jsdate" where
  "Date_parse tz s =
     (if length s = 10 then
        (case parse_date_fields s of
           Some (y, m, d) \<Rightarrow> Some (days_from_civil y m d * msPerDay)
         | None \<Rightarrow> None)
      else if length s = 19 then
        (case (parse_date_fields (take 10 s), parse_time_fields (drop 10 s)) of
           (Some (y, m, d), Some tm) \<Rightarrow> Some (UTC tz (days_from_civil y m d * msPerDay + tm))
         | _ \<Rightarrow> None)
      else None)"

text \<open>The same in a zone with daylight-saving time.\<close>

definition Date_parse_in :: "zone \<Rightarrow> string \<Rightarrow> jsdate" where
  "Date_parse_in z s =
     (if length s = 10 then
        (case parse_date_fields s of
           Some (y, m, d) \<Rightarrow> Some (days_from_civil y m d * msPerDay)
         | None \<Rightarrow> None)
      else if length s = 19 then
        (case (parse_date_fields (take 10 s), parse_time_fields (drop 10 s)) of
           (Some (y, m, d), Some tm) \<Rightarrow>
             Some (UTC_in z (days_from_civil y m d * msPerDay + tm))
         | _ \<Rightarrow> None)
      else None)"

text \<open>
  \<open>toISOString\<close> prints the UTC fields of a time value as
  \<open>YYYY-MM-DDTHH:mm:ss.sssZ\<close> (a year outside 0 to 9999 is printed with a sign and
  six digits).
\<close>

definition pad2 :: "int \<Rightarrow> string" where
  "pad2 n = padStart 2 (CHR ''0'') (Number_toString n)"

definition toISOString :: "int \<Rightarrow> string" where
  "toISOString t =
     (case civil_from_days (Day t) of
        (y, m, d) \<Rightarrow>
          (if 0 \<le> y \<and> y \<le> 9999 then padStart 4 (CHR ''0'') (Number_toString y)
           else (if y < 0 then ''-'' else ''+'') @ padStart 6 (CHR ''0'') (Number_toString \<bar>y\<bar>))
          @ ''-'' @ pad2 m @ ''-'' @ pad2 d @ ''T''
          @ pad2 (TimeWithinDay t div msPerHour) @ '':''
          @ pad2 (TimeWithinDay t div msPerMinute mod 60) @ '':''
          @ pad2 (TimeWithinDay t div msPerSecond mod 60) @ ''.''
          @ padStart 3 (CHR ''0'') (Number_toString (TimeWithinDay t mod msPerSecond)) @ ''Z'')"

subsection \<open>The due date the task form stores\<close>

text \<open>
  \<open>TaskForm.onSubmit\<close> turns the picked date (a valid \<open>Date\<close>, which the form's
  schema demands) into the string it stores in \<open>due_date\<close>:
  \<^verbatim>\<open>const pad = (n: number) => n.toString().padStart(2, "0");\<close>
  \<^verbatim>\<open>const localDate = `${getFullYear()}-${pad(getMonth() + 1)}-${pad(getDate())}`;\<close>
  The \<open>DATE\<close> column keeps the day the string names, and the gateway returns it in
  the same form.
\<close>

definition pad :: "int \<Rightarrow> string" where
  "pad n = padStart 2 (CHR ''0'') (Number_toString n)"

definition TaskForm_localDate :: "int \<Rightarrow> int \<Rightarrow> string" where
  "TaskForm_localDate tz due =
     Number_toString (getFullYear tz due) @ ''-'' @ pad (getMonth tz due + 1)
       @ ''-'' @ pad (getDate tz due)"

text \<open>The instant at which local day number \<open>n\<close> starts.\<close>

definition local_midnight :: "int \<Rightarrow> int \<Rightarrow> int" where
  "local_midnight tz n = UTC tz (n * msPerDay)"

section \<open>The data model\<close>

text \<open>
  The rows of the two tables of the migration, \<open>public.subjects\<close> and
  \<open>public.tasks\<close>, with their columns. \<open>subject_id\<close> is the nullable foreign key
  of a task; \<open>due_date\<close> is a \<open>DATE\<close>, which the gateway hands to the client as
  the string \<open>YYYY-MM-DD\<close>; the two timestamps are time values. The key and the
  timestamps of a subject carry the prefix \<open>subj_\<close>, and the key of a task is
  \<open>task_id\<close>, since a field name is used once. The task objects the pages hold
  also carry the joined \<open>subjects (name, color)\<close>; only the poller's message reads
  it, and the model makes that join where it is read.
\<close>

record subject =
  subj_id :: string
  subj_user_id :: string
  name :: string
  day_of_week :: int
  start_time :: string
  end_time :: string
  location :: "string option"
  color :: string
  subj_created_at :: int
  subj_updated_at :: int

record task =
  task_id :: string
  user_id :: string
  subject_id :: "string option"
  title :: string
  description :: "string option"
  due_date :: string
  priority :: int
  is_completed :: bool
  created_at :: int
  updated_at :: int

text \<open>
  A calendar event is \<open>{ type, data, date }\<close>: the tag, the row it was made from,
  and the day it falls on.
\<close>

datatype event_type = EvSubject | EvTask

datatype event_data = SubjectData subject | TaskData task

record CalendarEvent =
  type :: event_type
  data :: event_data
  date :: jsdate

section \<open>The calendar materializers\<close>

text \<open>
  \<open>generateCalendarEvents\<close> exists twice with the same name: in the calendar page
  (\<open>CalendarPage\<close>) and in the dashboard's calendar widget (\<open>CalendarWidget\<close>).
  Both build the array \<open>events\<close> and hand it to \<open>setEvents\<close>; the model returns
  the array. The \<open>while\<close> loop walks \<open>currentDate\<close> from \<open>monthStart\<close> while
  \<open>currentDate <= monthEnd\<close>; a comparison with an invalid date is false, so the
  loop is not entered when either bound is invalid.
\<close>

function CalendarPage_subjectLoop ::
  "int \<Rightarrow> subject list \<Rightarrow> int \<Rightarrow> int \<Rightarrow> CalendarEvent list \<Rightarrow> CalendarEvent list" where
  "CalendarPage_subjectLoop tz subjects currentDate monthEnd events =
     (if currentDate \<le> monthEnd then
        CalendarPage_subjectLoop tz subjects
          (setDate tz currentDate (getDate tz currentDate + 1)) monthEnd
          (foldl (\<lambda>events subject.
                    if getDay tz currentDate = day_of_week subject
                    then events @ [\<lparr>type = EvSubject, data = SubjectData subject,
                                     date = Some currentDate\<rparr>]
                    else events)
                 events subjects)
      else events)"
  by pat_completeness auto
termination
  by (relation "measure (\<lambda>(tz, subjects, currentDate, monthEnd, events).
                  nat (monthEnd - currentDate + 1))")
     (auto simp: setDate_next msPerDay_def)

declare CalendarPage_subjectLoop.simps [simp del]

definition CalendarPage_generateCalendarEvents ::
  "int \<Rightarrow> subject list \<Rightarrow> task list \<Rightarrow> jsdate \<Rightarrow> jsdate \<Rightarrow> CalendarEvent list" where
  "CalendarPage_generateCalendarEvents tz subjects tasks monthStart monthEnd =
     (let events =
            (case (monthStart, monthEnd) of
               (Some s, Some e) \<Rightarrow> CalendarPage_subjectLoop tz subjects s e []
             | _ \<Rightarrow> [])
      in foldl (\<lambda>events task.
                  events @ [\<lparr>type = EvTask, data = TaskData task,
                              date = Date_parse tz (due_date task @ ''T00:00:00'')\<rparr>])
               events tasks)"

function CalendarWidget_subjectLoop ::
  "int \<Rightarrow> subject list \<Rightarrow> int \<Rightarrow> int \<Rightarrow> CalendarEvent list \<Rightarrow> CalendarEvent list" where
  "CalendarWidget_subjectLoop tz subjects currentDate monthEnd events =
     (if currentDate \<le> monthEnd then
        CalendarWidget_subjectLoop tz subjects
          (setDate tz currentDate (getDate tz currentDate + 1)) monthEnd
          (foldl (\<lambda>events subject.
                    if getDay tz currentDate = day_of_week subject
                    then events @ [\<lparr>type = EvSubject, data = SubjectData subject,
                                     date = Some currentDate\<rparr>]
                    else events)
                 events subjects)
      else events)"
  by pat_completeness auto
termination
  by (relation "measure (\<lambda>(tz, subjects, currentDate, monthEnd, events).
                  nat (monthEnd - currentDate + 1))")
     (auto simp: setDate_next msPerDay_def)

declare CalendarWidget_subjectLoop.simps [simp del]

definition CalendarWidget_generateCalendarEvents ::
  "int \<Rightarrow> subject list \<Rightarrow> task list \<Rightarrow> jsdate \<Rightarrow> jsdate \<Rightarrow> CalendarEvent list" where
  "CalendarWidget_generateCalendarEvents tz subjects tasks monthStart monthEnd =
     (let events =
            (case (monthStart, monthEnd) of
               (Some s, Some e) \<Rightarrow> CalendarWidget_subjectLoop tz subjects s e []
             | _ \<Rightarrow> [])
      in foldl (\<lambda>events task.
                  events @ [\<lparr>type = EvTask, data = TaskData task,
                              date = Date_parse tz (due_date task)\<rparr>])
               events tasks)"

subsection \<open>The calendar page's materializer in a zone with daylight-saving time\<close>

text \<open>
  The same text of \<open>CalendarPage\<close> once more, with the methods of \<open>Date\<close> read
  in a zone with daylight-saving time. The step of the loop is at least 23 hours, so
  the loop ends.
\<close>

function CalendarPage_subjectLoop_in ::
  "zone \<Rightarrow> subject list \<Rightarrow> int \<Rightarrow> int \<Rightarrow> CalendarEvent list \<Rightarrow> CalendarEvent list" where
  "CalendarPage_subjectLoop_in z subjects currentDate monthEnd events =
     (if currentDate \<le> monthEnd then
        CalendarPage_subjectLoop_in z subjects
          (setDate_in z currentDate (getDate_in z currentDate + 1)) monthEnd
          (foldl (\<lambda>events subject.
                    if getDay_in z currentDate = day_of_week subject
                    then events @ [\<lparr>type = EvSubject, data = SubjectData subject,
                                     date = Some currentDate\<rparr>]
                    else events)
                 events subjects)
      else events)"
  by pat_completeness auto
termination
proof (relation "measure (\<lambda>(z, subjects, currentDate, monthEnd, events).
                  nat (monthEnd - currentDate + 1))")
  show "wf (measure (\<lambda>(z, subjects, currentDate, monthEnd, events).
                  nat (monthEnd - currentDate + 1)))" by simp
next
  fix z :: zone and subjects :: "subject list" and currentDate monthEnd :: int
    and events :: "CalendarEvent list"
  assume "currentDate \<le> monthEnd"
  then show "((z, subjects, setDate_in z currentDate (getDate_in z currentDate + 1), monthEnd,
        foldl (\<lambda>events subject.
                    if getDay_in z currentDate = day_of_week subject
                    then events @ [\<lparr>type = EvSubject, data = SubjectData subject,
                                     date = Some currentDate\<rparr>]
                    else events)
                 events subjects),
       (z, subjects, currentDate, monthEnd, events))
      \<in> measure (\<lambda>(z, subjects, currentDate, monthEnd, events).
                  nat (monthEnd - currentDate + 1))"
    using setDate_in_advances [of currentDate z] by simp
qed

declare CalendarPage_subjectLoop_in.simps [simp del]

definition CalendarPage_generateCalendarEvents_in ::
  "zone \<Rightarrow> subject list \<Rightarrow> task list \<Rightarrow> jsdate \<Rightarrow> jsdate \<Rightarrow> CalendarEvent list" where
  "CalendarPage_generateCalendarEvents_in z subjects tasks monthStart monthEnd =
     (let events =
            (case (monthStart, monthEnd) of
               (Some s, Some e) \<Rightarrow> CalendarPage_subjectLoop_in z subjects s e []
             | _ \<Rightarrow> [])
      in foldl (\<lambda>events task.
                  events @ [\<lparr>type = EvTask, data = TaskData task,
                              date = Date_parse_in z (due_date task @ ''T00:00:00'')\<rparr>])
               events tasks)"

subsection \<open>The day bucketer\<close>

text \<open>
  \<open>isSameDay\<close> is the \<open>date-fns\<close> function: two dates are on the same day when
  their local starts of day are the same instant, which no invalid date satisfies.
  \<open>getEventsForDate\<close> and \<open>getDateClassName\<close> read the component's \<open>events\<close>
  state, here the argument \<open>events\<close>; the two components have the same text for
  both functions.
\<close>

definition isSameDay :: "int \<Rightarrow> jsdate \<Rightarrow> jsdate \<Rightarrow> bool" where
  "isSameDay tz a b =
     (case (a, b) of
        (Some x, Some y) \<Rightarrow> Day (LocalTime tz x) = Day (LocalTime tz y)
      | _ \<Rightarrow> False)"

definition getEventsForDate :: "int \<Rightarrow> CalendarEvent list \<Rightarrow> jsdate \<Rightarrow> CalendarEvent list" where
  "getEventsForDate tz events d = filter (\<lambda>event. isSameDay tz (date event) d) events"

text \<open>
  \<open>(e.data as Task).is_completed\<close> reads the field of whatever \<open>data\<close> holds; a
  subject has no such field, and the missing field counts as false.
\<close>

definition data_is_completed :: "event_data \<Rightarrow> bool" where
  "data_is_completed d = (case d of TaskData t \<Rightarrow> is_completed t | SubjectData s \<Rightarrow> False)"

definition getDateClassName :: "int \<Rightarrow> CalendarEvent list \<Rightarrow> jsdate \<Rightarrow> string" where
  "getDateClassName tz events d =
     (let dayEvents = getEventsForDate tz events d in
      if length dayEvents = 0 then []
      else
        let hasSubjects = list_ex (\<lambda>e. type e = EvSubject) dayEvents;
            hasTasks = list_ex (\<lambda>e. type e = EvTask \<and> \<not> data_is_completed (data e)) dayEvents;
            hasCompletedTasks =
              list_ex (\<lambda>e. type e = EvTask \<and> data_is_completed (data e)) dayEvents
        in if hasSubjects \<and> hasTasks
           then ''bg-gradient-to-br from-primary/30 to-warning/30 hover:from-primary/40 hover:to-warning/40''
           else if hasSubjects then ''bg-primary/30 hover:bg-primary/40''
           else if hasTasks then ''bg-warning/30 hover:bg-warning/40''
           else if hasCompletedTasks then ''bg-success/30 hover:bg-success/40''
           else [])"

text \<open>
  The five visual states of a day that the specification names, and the class string
  by which \<open>getDateClassName\<close> tells the calendar cell each of them.
\<close>

datatype day_state = Mixed | Class | PendingTask | CompletedTask | Empty

definition className :: "day_state \<Rightarrow> string" where
  "className st =
     (case st of
        Mixed \<Rightarrow> ''bg-gradient-to-br from-primary/30 to-warning/30 hover:from-primary/40 hover:to-warning/40''
      | Class \<Rightarrow> ''bg-primary/30 hover:bg-primary/40''
      | PendingTask \<Rightarrow> ''bg-warning/30 hover:bg-warning/40''
      | CompletedTask \<Rightarrow> ''bg-success/30 hover:bg-success/40''
      | Empty \<Rightarrow> [])"

text \<open>The weekday (0 is Sunday) of a day number; day 0, 1970-01-01, was a Thursday.\<close>

definition weekday_of_day :: "int \<Rightarrow> int" where
  "weekday_of_day d = (d + 4) mod 7"

section \<open>The data store and the pages that edit it\<close>

text \<open>
  The store holds the two tables. The application reaches it through the gateway with
  the session of one user, and row-level security shows that user only their own rows:
  \<open>db\<close> is the content of the two tables as the signed-in user sees it.

  A request to the gateway either goes through or comes back with an error; the
  argument \<open>failure\<close> of a page function is that error, \<open>None\<close> when the request
  went through. A request that failed has changed nothing.
\<close>

record db =
  public_subjects :: "subject list"
  public_tasks :: "task list"

text \<open>
  \<^verbatim>\<open>DELETE FROM subjects WHERE id = sid\<close>. The migration declares
  \<^verbatim>\<open>subject_id UUID REFERENCES public.subjects(id) ON DELETE CASCADE\<close>: the tasks
  that reference a deleted subject are deleted with it.
\<close>

definition delete_subject :: "string \<Rightarrow> db \<Rightarrow> db" where
  "delete_subject sid d =
     (let gone = map subj_id (filter (\<lambda>s. subj_id s = sid) (public_subjects d))
      in d\<lparr>public_subjects := filter (\<lambda>s. subj_id s \<noteq> sid) (public_subjects d),
            public_tasks :=
              filter (\<lambda>t. case subject_id t of None \<Rightarrow> True | Some r \<Rightarrow> r \<notin> set gone)
                     (public_tasks d)\<rparr>)"

text \<open>
  \<^verbatim>\<open>UPDATE tasks SET is_completed = v WHERE id = tid\<close>, at time \<open>now\<close>. The trigger
  \<open>update_tasks_updated_at\<close> runs \<open>update_updated_at_column\<close> before every update
  of a row, which sets \<open>NEW.updated_at = now()\<close>.
\<close>

definition update_task_is_completed :: "int \<Rightarrow> string \<Rightarrow> bool \<Rightarrow> db \<Rightarrow> db" where
  "update_task_is_completed now tid v d =
     d\<lparr>public_tasks :=
         map (\<lambda>t. if task_id t = tid then t\<lparr>is_completed := v, updated_at := now\<rparr> else t)
             (public_tasks d)\<rparr>"

text \<open>The message a page shows after a request (\<open>toast({ title, description, variant })\<close>).\<close>

record toast =
  toast_title :: string
  toast_description :: string
  toast_variant :: "string option"

text \<open>
  \<open>SubjectsPage.deleteSubject\<close> and \<open>TasksPage.toggleTaskComplete\<close>. The state of a
  page is the list it holds (\<open>subjects\<close>, \<open>tasks\<close>), paired here with the store.
\<close>

definition SubjectsPage_deleteSubject ::
  "string option \<Rightarrow> string \<Rightarrow> subject list \<times> db \<Rightarrow> (subject list \<times> db) \<times> toast" where
  "SubjectsPage_deleteSubject failure sid st =
     (case st of (subjects, d) \<Rightarrow>
        (case failure of
           Some error \<Rightarrow>
             ((subjects, d),
              \<lparr>toast_title = ''Error'', toast_description = ''Gagal menghapus mata pelajaran'',
               toast_variant = Some ''destructive''\<rparr>)
         | None \<Rightarrow>
             ((filter (\<lambda>s. subj_id s \<noteq> sid) subjects, delete_subject sid d),
              \<lparr>toast_title = ''Berhasil!'',
               toast_description = ''Mata pelajaran berhasil dihapus'',
               toast_variant = None\<rparr>)))"

definition TasksPage_toggleTaskComplete ::
  "string option \<Rightarrow> int \<Rightarrow> task \<Rightarrow> task list \<times> db \<Rightarrow> (task list \<times> db) \<times> toast" where
  "TasksPage_toggleTaskComplete failure now task st =
     (case st of (tasks, d) \<Rightarrow>
        (case failure of
           Some error \<Rightarrow>
             ((tasks, d),
              \<lparr>toast_title = ''Error'', toast_description = ''Gagal memperbarui status tugas'',
               toast_variant = Some ''destructive''\<rparr>)
         | None \<Rightarrow>
             ((map (\<lambda>t. if task_id t = task_id task
                         then t\<lparr>is_completed := \<not> is_completed t\<rparr> else t) tasks,
               update_task_is_completed now (task_id task) (\<not> is_completed task) d),
              \<lparr>toast_title = ''Berhasil!'',
               toast_description =
                 (if is_completed task then ''Tugas ditandai belum selesai''
                  else ''Tugas ditandai selesai''),
               toast_variant = None\<rparr>)))"

section \<open>The notification poller\<close>

text \<open>
  \<open>useNotifications.checkUpcomingItems\<close> runs once at start and then every minute.
  It reads the clock (\<open>now\<close>; the later readings of the same run are taken to be the
  same instant), asks the gateway three questions and calls \<open>createNotification\<close>
  for each alert; the model returns the alerts in the order they are created. An alert
  is the argument of \<open>createNotification\<close>: a \<open>NotificationItem\<close> without its
  \<open>id\<close>, which is made from the clock and a random number.
\<close>

datatype notification_type = NClass | NTask | NReminder

datatype notification_priority = Low | Medium | High

datatype notification_data = ClassOf subject | TaskOf task | TasksOf "task list"

record NotificationItem =
  n_type :: notification_type
  n_title :: string
  n_message :: string
  n_time :: jsdate
  n_priority :: notification_priority
  n_data :: notification_data

text \<open>
  \<open>differenceInMinutes\<close> is the \<open>date-fns\<close> function: the difference in
  milliseconds over 60000, truncated towards zero.
\<close>

definition differenceInMinutes :: "int \<Rightarrow> int \<Rightarrow> int" where
  "differenceInMinutes dateLeft dateRight =
     (let diff = dateLeft - dateRight
      in if diff < 0 then - ((- diff) div msPerMinute) else diff div msPerMinute)"

text \<open>
  \<open>s.split(c)\<close> and \<open>Number(s)\<close>. A \<open>TIME\<close> column reaches the client as
  \<open>HH:MM:SS\<close>, so the parts are strings of digits; \<open>Number\<close> of the empty string
  is 0, and of a string with any other character the model gives NaN (\<open>None\<close>).
\<close>

fun split_on :: "char \<Rightarrow> string \<Rightarrow> string list" where
  "split_on c [] = [[]]"
| "split_on c (x # xs) =
     (if x = c then [] # split_on c xs
      else (case split_on c xs of
              w # ws \<Rightarrow> (x # w) # ws
            | [] \<Rightarrow> [[x]]))"

definition Number_of_string :: "string \<Rightarrow> int option" where
  "Number_of_string s = (if s = [] then Some 0 else map_option int (parse_digits s 0))"

text \<open>
  The three questions to the gateway. A question that fails leaves \<open>data\<close> null
  (\<open>None\<close>), and the code then skips the block.
\<close>

definition select_subjects_on :: "string option \<Rightarrow> db \<Rightarrow> int \<Rightarrow> subject list option" where
  "select_subjects_on failure d wd =
     (case failure of
        Some error \<Rightarrow> None
      | None \<Rightarrow> Some (filter (\<lambda>s. day_of_week s = wd) (public_subjects d)))"

definition select_tasks_due :: "string option \<Rightarrow> db \<Rightarrow> string \<Rightarrow> task list option" where
  "select_tasks_due failure d day =
     (case failure of
        Some error \<Rightarrow> None
      | None \<Rightarrow> Some (filter (\<lambda>t. due_date t = day \<and> is_completed t = False) (public_tasks d)))"

text \<open>
  The body of \<open>subjects?.forEach\<close>: the alert for a class that starts within the next
  15 minutes. \<open>[hours, minutes]\<close> are the first two parts of \<open>start_time\<close>; if
  either is missing or NaN the class time is an invalid date and no comparison holds.
\<close>

definition class_alert :: "int \<Rightarrow> int \<Rightarrow> subject \<Rightarrow> NotificationItem list" where
  "class_alert tz now subject =
     (case map Number_of_string (split_on (CHR '':'') (start_time subject)) of
        Some hours # Some minutes # rest \<Rightarrow>
          (let classTime = setHours tz now hours minutes 0 0;
               minutesUntilClass = differenceInMinutes classTime now
           in if minutesUntilClass > 0 \<and> minutesUntilClass \<le> 15 then
                [\<lparr>n_type = NClass,
                  n_title = ''Kelas '' @ name subject @ '' Segera Dimulai'',
                  n_message = ''Kelas dimulai dalam '' @ Number_toString minutesUntilClass
                    @ '' menit di ''
                    @ (case location subject of
                         None \<Rightarrow> ''lokasi tidak disebutkan''
                       | Some l \<Rightarrow> if l = [] then ''lokasi tidak disebutkan'' else l),
                  n_time = Some classTime, n_priority = High, n_data = ClassOf subject\<rparr>]
              else [])
      | _ \<Rightarrow> [])"

text \<open>
  The body of \<open>todayTasks?.forEach\<close>. The query joins the name of the task's subject
  (\<open>subjects(name)\<close>), which the message shows in brackets when it is not empty.
\<close>

definition task_alert :: "int \<Rightarrow> db \<Rightarrow> task \<Rightarrow> NotificationItem" where
  "task_alert now d task =
     \<lparr>n_type = NTask, n_title = ''Tugas Jatuh Tempo Hari Ini'',
      n_message = title task @ '' ''
        @ (case filter (\<lambda>s. Some (subj_id s) = subject_id task) (public_subjects d) of
             s # ss \<Rightarrow> if name s = [] then [] else ''('' @ name s @ '')''
           | [] \<Rightarrow> [])
        @ '' harus diselesaikan hari ini'',
      n_time = Some now,
      n_priority = (if priority task = 3 then High else if priority task = 2 then Medium else Low),
      n_data = TaskOf task\<rparr>"

text \<open>
  The three blocks of \<open>checkUpcomingItems\<close>, in the order of the source. The dates
  sent to the gateway are \<open>toISOString().split('T')[0]\<close> of \<open>today\<close> and of
  \<open>tomorrow\<close>, where \<open>tomorrow\<close> is \<open>today\<close> with its day of the month moved on
  by one.
\<close>

definition classesStartingSoon ::
  "int \<Rightarrow> int \<Rightarrow> string option \<Rightarrow> db \<Rightarrow> NotificationItem list" where
  "classesStartingSoon tz now failure d =
     (let today = now
      in case select_subjects_on failure d (getDay tz today) of
           None \<Rightarrow> []
         | Some subjects \<Rightarrow> concat (map (class_alert tz now) subjects))"

definition tasksDueToday ::
  "int \<Rightarrow> int \<Rightarrow> string option \<Rightarrow> db \<Rightarrow> NotificationItem list" where
  "tasksDueToday tz now failure d =
     (let today = now
      in case select_tasks_due failure d (split_first (CHR ''T'') (toISOString today)) of
           None \<Rightarrow> []
         | Some todayTasks \<Rightarrow> map (task_alert now d) todayTasks)"

definition tasksDueTomorrow ::
  "int \<Rightarrow> int \<Rightarrow> string option \<Rightarrow> db \<Rightarrow> NotificationItem list" where
  "tasksDueTomorrow tz now failure d =
     (let today = now;
          tomorrow = setDate tz today (getDate tz today + 1)
      in if getHours tz now = 8 \<and> getMinutes tz now = 0 then
           (case select_tasks_due failure d
                   (split_first (CHR ''T'') (toISOString tomorrow)) of
              None \<Rightarrow> []
            | Some tomorrowTasks \<Rightarrow>
                if length tomorrowTasks > 0 then
                  [\<lparr>n_type = NReminder, n_title = ''Pengingat Tugas Besok'',
                    n_message = ''Kamu memiliki ''
                      @ Number_toString (int (length tomorrowTasks))
                      @ '' tugas yang jatuh tempo besok'',
                    n_time = Some now, n_priority = Medium,
                    n_data = TasksOf tomorrowTasks\<rparr>]
                else [])
         else [])"

definition checkUpcomingItems ::
  "int \<Rightarrow> int \<Rightarrow> string option \<Rightarrow> string option \<Rightarrow> string option \<Rightarrow> db
     \<Rightarrow> NotificationItem list" where
  "checkUpcomingItems tz now failure1 failure2 failure3 d =
     classesStartingSoon tz now failure1 d
       @ tasksDueToday tz now failure2 d
       @ tasksDueTomorrow tz now failure3 d"

section \<open>Properties of the materializers\<close>

lemma foldl_push_if:
  "foldl (\<lambda>events x. if P x then events @ [f x] else events) events xs
     = events @ map f (filter P xs)"
  by (induction xs arbitrary: events) simp_all

lemma foldl_push:
  "foldl (\<lambda>events x. events @ [f x]) events xs = events @ map f xs"
  by (induction xs arbitrary: events) simp_all

lemma CalendarPage_subjectLoop_stop:
  "monthEnd < currentDate \<Longrightarrow>
   CalendarPage_subjectLoop tz subjects currentDate monthEnd events = events"
  by (subst CalendarPage_subjectLoop.simps) simp

lemma CalendarWidget_subjectLoop_stop:
  "monthEnd < currentDate \<Longrightarrow>
   CalendarWidget_subjectLoop tz subjects currentDate monthEnd events = events"
  by (subst CalendarWidget_subjectLoop.simps) simp

text \<open>The two loops have the same text, and so the same value.\<close>

lemma subjectLoop_same:
  "CalendarWidget_subjectLoop tz subjects currentDate monthEnd events
     = CalendarPage_subjectLoop tz subjects currentDate monthEnd events"
proof (induction tz subjects currentDate monthEnd events
       rule: CalendarPage_subjectLoop.induct)
  case (1 tz subjects currentDate monthEnd events)
  show ?case
  proof (cases "currentDate \<le> monthEnd")
    case True
    then show ?thesis
      using "1.IH"
      by (subst CalendarWidget_subjectLoop.simps, subst CalendarPage_subjectLoop.simps) simp
  next
    case False
    then show ?thesis
      by (simp add: CalendarWidget_subjectLoop_stop CalendarPage_subjectLoop_stop)
  qed
qed

text \<open>The loop adds subject events only: it keeps the events that satisfy a
  predicate no subject event satisfies.\<close>

lemma CalendarPage_subjectLoop_filter:
  assumes "\<And>subject dt. \<not> Q \<lparr>type = EvSubject, data = SubjectData subject, date = dt\<rparr>"
  shows "filter Q (CalendarPage_subjectLoop tz subjects currentDate monthEnd events)
           = filter Q events"
proof (induction tz subjects currentDate monthEnd events
       rule: CalendarPage_subjectLoop.induct)
  case (1 tz subjects currentDate monthEnd events)
  show ?case
  proof (cases "currentDate \<le> monthEnd")
    case True
    have "filter Q (map (\<lambda>subject. \<lparr>type = EvSubject, data = SubjectData subject,
                                     date = Some currentDate\<rparr>) xs) = []" for xs
      by (induction xs) (simp_all add: assms)
    then show ?thesis
      using "1.IH" [OF True] True
      by (subst CalendarPage_subjectLoop.simps) (simp add: foldl_push_if)
  next
    case False
    then show ?thesis by (simp add: CalendarPage_subjectLoop_stop)
  qed
qed

lemma page_events:
  "CalendarPage_generateCalendarEvents tz subjects tasks monthStart monthEnd =
     (case (monthStart, monthEnd) of
        (Some s, Some e) \<Rightarrow> CalendarPage_subjectLoop tz subjects s e []
      | _ \<Rightarrow> [])
     @ map (\<lambda>task. \<lparr>type = EvTask, data = TaskData task,
                      date = Date_parse tz (due_date task @ ''T00:00:00'')\<rparr>) tasks"
  by (simp add: CalendarPage_generateCalendarEvents_def foldl_push)

lemma widget_events:
  "CalendarWidget_generateCalendarEvents tz subjects tasks monthStart monthEnd =
     (case (monthStart, monthEnd) of
        (Some s, Some e) \<Rightarrow> CalendarPage_subjectLoop tz subjects s e []
      | _ \<Rightarrow> [])
     @ map (\<lambda>task. \<lparr>type = EvTask, data = TaskData task,
                      date = Date_parse tz (due_date task)\<rparr>) tasks"
  by (simp add: CalendarWidget_generateCalendarEvents_def foldl_push subjectLoop_same
           split: option.splits)

lemma count_task_map:
  "length (filter (\<lambda>e. data e = TaskData t)
      (map (\<lambda>task. \<lparr>type = EvTask, data = TaskData task, date = f task\<rparr>) tasks))
    = count_list tasks t"
  by (induction tasks) auto

lemma count_pushed:
  "length (filter (\<lambda>x. type x = EvSubject \<and> data x = SubjectData sub)
      (map (\<lambda>subject. \<lparr>type = EvSubject, data = SubjectData subject, date = dt\<rparr>)
           (filter (\<lambda>subject. w = day_of_week subject) subjects)))
   = (if w = day_of_week sub then count_list subjects sub else 0)"
  by (induction subjects) auto

text \<open>The loop in a zone with daylight-saving time.\<close>

lemma CalendarPage_subjectLoop_in_step:
  "currentDate \<le> monthEnd \<Longrightarrow>
   CalendarPage_subjectLoop_in z subjects currentDate monthEnd events =
   CalendarPage_subjectLoop_in z subjects (UTC_in z (LocalTime_in z currentDate + msPerDay))
     monthEnd
     (events @ map (\<lambda>subject. \<lparr>type = EvSubject, data = SubjectData subject,
                                date = Some currentDate\<rparr>)
                   (filter (\<lambda>subject. getDay_in z currentDate = day_of_week subject) subjects))"
  by (subst CalendarPage_subjectLoop_in.simps) (simp add: setDate_in_next foldl_push_if)

lemma CalendarPage_subjectLoop_in_stop:
  "monthEnd < currentDate \<Longrightarrow>
   CalendarPage_subjectLoop_in z subjects currentDate monthEnd events = events"
  by (subst CalendarPage_subjectLoop_in.simps) simp

lemma page_events_in:
  "CalendarPage_generateCalendarEvents_in z subjects tasks monthStart monthEnd =
     (case (monthStart, monthEnd) of
        (Some s, Some e) \<Rightarrow> CalendarPage_subjectLoop_in z subjects s e []
      | _ \<Rightarrow> [])
     @ map (\<lambda>task. \<lparr>type = EvTask, data = TaskData task,
                      date = Date_parse_in z (due_date task @ ''T00:00:00'')\<rparr>) tasks"
  by (simp add: CalendarPage_generateCalendarEvents_in_def foldl_push)

text \<open>
  In a zone that never has daylight-saving time it is the loop, and the materializer,
  of the sections above.
\<close>

lemma fixed_zone_Date_parse: "Date_parse_in (fixed_zone tz) s = Date_parse tz s"
  by (simp only: Date_parse_in_def Date_parse_def fixed_zone_UTC)

lemma fixed_zone_subjectLoop:
  "z = fixed_zone tz \<Longrightarrow>
   CalendarPage_subjectLoop_in z subjects currentDate monthEnd events
     = CalendarPage_subjectLoop tz subjects currentDate monthEnd events"
proof (induction z subjects currentDate monthEnd events
       rule: CalendarPage_subjectLoop_in.induct)
  case (1 z subjects currentDate monthEnd events)
  show ?case
  proof (cases "currentDate \<le> monthEnd")
    case True
    then show ?thesis
      using "1.IH" [OF True "1.prems"] "1.prems"
      by (subst CalendarPage_subjectLoop_in.simps, subst CalendarPage_subjectLoop.simps)
         (simp add: fixed_zone_setDate fixed_zone_getDate fixed_zone_getDay)
  next
    case False
    then show ?thesis
      by (subst CalendarPage_subjectLoop_in.simps, subst CalendarPage_subjectLoop.simps) simp
  qed
qed

lemma fixed_zone_generateCalendarEvents:
  "CalendarPage_generateCalendarEvents_in (fixed_zone tz) subjects tasks monthStart monthEnd
     = CalendarPage_generateCalendarEvents tz subjects tasks monthStart monthEnd"
  by (simp only: CalendarPage_generateCalendarEvents_in_def
        CalendarPage_generateCalendarEvents_def fixed_zone_subjectLoop [OF refl]
        fixed_zone_Date_parse)

lemma getDay_in_weekday: "getDay_in z t = weekday_of_day (Day (LocalTime_in z t))"
  by (simp add: getDay_in_def WeekDay_def weekday_of_day_def)

lemma div_of_split:
  fixes q r M x :: int
  assumes "x = q * M + r" "0 \<le> r" "r < M"
  shows "x div M = q"
proof -
  have M: "M \<noteq> 0" using assms(2,3) by simp
  have "(q * M + r) div M = q + r div M" using M by (rule div_mult_self3)
  moreover have "r div M = 0" using assms(2,3) by (rule div_pos_pos_trivial)
  ultimately show ?thesis by (simp add: assms(1))
qed

lemma Day_of_split: "0 \<le> r \<Longrightarrow> r < msPerDay \<Longrightarrow> Day (d * msPerDay + r) = d"
  unfolding Day_def by (rule div_of_split [where r = r]) simp_all

lemma split_le:
  fixes d De a b :: int
  assumes "0 \<le> a" "a \<le> b" "b < msPerDay"
  shows "(d * msPerDay + a \<le> De * msPerDay + b) = (d \<le> De)"
proof (cases "d \<le> De")
  case True
  then have "d * 86400000 \<le> De * 86400000" by simp
  then show ?thesis using True assms by (simp add: msPerDay_def)
next
  case False
  then have "De + 1 \<le> d" by simp
  then have "(De + 1) * 86400000 \<le> d * 86400000" by (simp only: mult_le_cancel_right) simp
  then show ?thesis using False assms by (simp add: msPerDay_def algebra_simps)
qed

text \<open>
  The loop started at the local time of day \<open>tod\<close> of the local day \<open>d\<close>, a
  regular time of day that is not after the time of day of \<open>e\<close>, visits that time of
  day on the local days from \<open>d\<close> to the local day \<open>De\<close> of \<open>e\<close>. On each it
  adds one event for every listing of a subject of that weekday.
\<close>

lemma CalendarPage_subjectLoop_in_count:
  assumes "regular_at z tod" and "0 \<le> tod" and "tod \<le> tod_e" and "tod_e < msPerDay"
    and "LocalTime_in z e = De * msPerDay + tod_e"
    and "LocalTime_in z c = d * msPerDay + tod"
    and "(c \<le> e) = (d \<le> De)"
  shows "length (filter (\<lambda>x. type x = EvSubject \<and> data x = SubjectData sub)
      (CalendarPage_subjectLoop_in z subjects c e events))
   = length (filter (\<lambda>x. type x = EvSubject \<and> data x = SubjectData sub) events)
     + count_list subjects sub
       * length (filter (\<lambda>d. weekday_of_day d = day_of_week sub) [d .. De])"
  using assms
proof (induction z subjects c e events arbitrary: d rule: CalendarPage_subjectLoop_in.induct)
  case (1 z subjects c e events)
  note reg = "1.prems"(1) and tod = "1.prems"(2,3,4) and Le = "1.prems"(5)
    and Lc = "1.prems"(6) and cmp = "1.prems"(7)
  let ?Q = "\<lambda>x. type x = EvSubject \<and> data x = SubjectData sub"
  show ?case
  proof (cases "c \<le> e")
    case True
    then have dDe: "d \<le> De" using cmp by simp
    define c' where "c' = UTC_in z (LocalTime_in z c + msPerDay)"
    have l: "LocalTime_in z c + msPerDay = (d + 1) * msPerDay + tod"
      by (simp add: Lc algebra_simps)
    have Lc': "LocalTime_in z c' = (d + 1) * msPerDay + tod"
      using reg unfolding c'_def l regular_at_def by blast
    have "(c' \<le> e) = ((d + 1) * msPerDay + tod \<le> LocalTime_in z e)"
      using reg unfolding c'_def l regular_at_def by blast
    also have "\<dots> = (d + 1 \<le> De)"
      unfolding Le using tod by (rule split_le)
    finally have cmp': "(c' \<le> e) = (d + 1 \<le> De)" .
    let ?new = "map (\<lambda>subject. \<lparr>type = EvSubject, data = SubjectData subject,
                                  date = Some c\<rparr>)
                   (filter (\<lambda>subject. getDay_in z c = day_of_week subject) subjects)"
    have step: "setDate_in z c (getDate_in z c + 1) = c'"
      by (simp add: setDate_in_next c'_def)
    have fold: "foldl (\<lambda>events subject.
                    if getDay_in z c = day_of_week subject
                    then events @ [\<lparr>type = EvSubject, data = SubjectData subject,
                                     date = Some c\<rparr>]
                    else events) events subjects = events @ ?new"
      by (rule foldl_push_if)
    note ih = "1.IH" [OF True reg tod Le, unfolded step fold, OF Lc' cmp']
    have day: "Day (LocalTime_in z c) = d"
      unfolding Lc using tod by (intro Day_of_split) simp_all
    have n: "length (filter ?Q (events @ ?new)) = length (filter ?Q events)
        + (if weekday_of_day d = day_of_week sub then count_list subjects sub else 0)"
      by (simp only: filter_append length_append count_pushed getDay_in_weekday day)
    have u: "[d .. De] = d # [d + 1 .. De]"
      using dDe by (subst upto_rec1) simp_all
    have "length (filter ?Q (CalendarPage_subjectLoop_in z subjects c e events))
        = length (filter ?Q (CalendarPage_subjectLoop_in z subjects c' e (events @ ?new)))"
      by (simp only: CalendarPage_subjectLoop_in_step [OF True] c'_def)
    also have "\<dots> = length (filter ?Q (events @ ?new))
        + count_list subjects sub
          * length (filter (\<lambda>d. weekday_of_day d = day_of_week sub) [d + 1 .. De])"
      by (rule ih)
    finally show ?thesis
      by (simp only: n u) simp
  next
    case False
    then have "De < d" using cmp by simp
    then show ?thesis using False by (simp add: CalendarPage_subjectLoop_in_stop)
  qed
qed

text \<open>
  Where the local days are whole and \<open>e\<close> is the last millisecond of its local
  day \<open>De\<close>, as the end of a month is, the loop started anywhere on the local day
  \<open>d\<close> visits each local day from \<open>d\<close> to \<open>De\<close> once, also when the
  clock skips the time of day at which it started.
\<close>

lemma CalendarPage_subjectLoop_in_count_whole:
  assumes "whole_days z"
    and "UTC_in z ((De + 1) * msPerDay) = e + 1"
    and "Day (LocalTime_in z c) = d"
  shows "length (filter (\<lambda>x. type x = EvSubject \<and> data x = SubjectData sub)
      (CalendarPage_subjectLoop_in z subjects c e events))
   = length (filter (\<lambda>x. type x = EvSubject \<and> data x = SubjectData sub) events)
     + count_list subjects sub
       * length (filter (\<lambda>d. weekday_of_day d = day_of_week sub) [d .. De])"
  using assms
proof (induction z subjects c e events arbitrary: d rule: CalendarPage_subjectLoop_in.induct)
  case (1 z subjects c e events)
  note whole = "1.prems"(1) and last = "1.prems"(2) and day = "1.prems"(3)
  let ?Q = "\<lambda>x. type x = EvSubject \<and> data x = SubjectData sub"
  have "(e + 1 \<le> c) = (De + 1 \<le> d)"
    using whole unfolding whole_days_def last [symmetric] day [symmetric] by blast
  then have cmp: "(c \<le> e) = (d \<le> De)" by linarith
  show ?case
  proof (cases "c \<le> e")
    case True
    then have dDe: "d \<le> De" using cmp by simp
    define c' where "c' = UTC_in z (LocalTime_in z c + msPerDay)"
    have day': "Day (LocalTime_in z c') = d + 1"
      using whole unfolding c'_def whole_days_def day [symmetric] by blast
    let ?new = "map (\<lambda>subject. \<lparr>type = EvSubject, data = SubjectData subject,
                                  date = Some c\<rparr>)
                   (filter (\<lambda>subject. getDay_in z c = day_of_week subject) subjects)"
    have step: "setDate_in z c (getDate_in z c + 1) = c'"
      by (simp add: setDate_in_next c'_def)
    have fold: "foldl (\<lambda>events subject.
                    if getDay_in z c = day_of_week subject
                    then events @ [\<lparr>type = EvSubject, data = SubjectData subject,
                                     date = Some c\<rparr>]
                    else events) events subjects = events @ ?new"
      by (rule foldl_push_if)
    note ih = "1.IH" [OF True whole last, unfolded step fold, OF day']
    have n: "length (filter ?Q (events @ ?new)) = length (filter ?Q events)
        + (if weekday_of_day d = day_of_week sub then count_list subjects sub else 0)"
      by (simp only: filter_append length_append count_pushed getDay_in_weekday day)
    have u: "[d .. De] = d # [d + 1 .. De]"
      using dDe by (subst upto_rec1) simp_all
    have "length (filter ?Q (CalendarPage_subjectLoop_in z subjects c e events))
        = length (filter ?Q (CalendarPage_subjectLoop_in z subjects c' e (events @ ?new)))"
      by (simp only: CalendarPage_subjectLoop_in_step [OF True] c'_def)
    also have "\<dots> = length (filter ?Q (events @ ?new))
        + count_list subjects sub
          * length (filter (\<lambda>d. weekday_of_day d = day_of_week sub) [d + 1 .. De])"
      by (rule ih)
    finally show ?thesis
      by (simp only: n u) simp
  next
    case False
    then have "De < d" using cmp by simp
    then show ?thesis using False by (simp add: CalendarPage_subjectLoop_in_stop)
  qed
qed

lemma subject_occurrences_to_end_of_day:
  assumes "whole_days z"
    and "UTC_in z ((Day (LocalTime_in z e) + 1) * msPerDay) = e + 1"
  shows "length (filter (\<lambda>x. type x = EvSubject \<and> data x = SubjectData sub)
      (CalendarPage_generateCalendarEvents_in z subjects tasks (Some s) (Some e)))
   = count_list subjects sub
     * length (filter (\<lambda>d. weekday_of_day d = day_of_week sub)
         [Day (LocalTime_in z s) .. Day (LocalTime_in z e)])"
proof -
  have t: "filter (\<lambda>x. type x = EvSubject \<and> data x = SubjectData sub)
      (map (\<lambda>task. \<lparr>type = EvTask, data = TaskData task,
                      date = Date_parse_in z (due_date task @ ''T00:00:00'')\<rparr>) tasks) = []"
    by (induction tasks) simp_all
  show ?thesis
    using CalendarPage_subjectLoop_in_count_whole
            [OF assms refl, where c = s and sub = sub and subjects = subjects
               and events = "[]"] t
    by (simp add: page_events_in)
qed

section \<open>Example rows\<close>

text \<open>
  The subject and the task of the end-to-end scenario of the specification: a class on
  Mondays, and homework due on Monday 2025-03-03. The concrete instances below use
  them.
\<close>

definition example_subject :: subject where
  "example_subject =
     \<lparr>subj_id = ''s1'', subj_user_id = ''u1'', name = ''Math'', day_of_week = 1,
      start_time = ''08:00:00'', end_time = ''09:30:00'', location = None,
      color = ''#3B82F6'', subj_created_at = 0, subj_updated_at = 0\<rparr>"

definition example_task :: task where
  "example_task =
     \<lparr>task_id = ''t1'', user_id = ''u1'', subject_id = Some ''s1'', title = ''Homework'',
      description = None, due_date = ''2025-03-03'', priority = 3, is_completed = False,
      created_at = 0, updated_at = 0\<rparr>"

lemma example_task_date:
  "Date_parse 0 (due_date example_task @ ''T00:00:00'') = Some 1740960000000"
  by (simp add: example_task_def Date_parse_def parse_date_fields_def parse_time_fields_def
        parse_nat_def digit_of_char_def days_from_civil_def UTC_def msPerDay_def
        msPerHour_def msPerMinute_def msPerSecond_def)

lemma example_task_date_widget:
  "Date_parse 0 (due_date example_task) = Some 1740960000000"
  by (simp add: example_task_def Date_parse_def parse_date_fields_def
        parse_nat_def digit_of_char_def days_from_civil_def msPerDay_def)

text \<open>
  The end-to-end scenario itself, in UTC: over the range from 2025-03-01 to 2025-03-07
  the page has two events on 3 March, the class and the homework; 3 March is "mixed" and
  10 March is "empty".
\<close>

lemma end_to_end_scenario:
  "getEventsForDate 0
     (CalendarPage_generateCalendarEvents 0 [example_subject] [example_task]
        (Some 1740787200000) (Some 1741305600000))
     (Some 1740960000000)
   = [\<lparr>type = EvSubject, data = SubjectData example_subject, date = Some 1740960000000\<rparr>,
      \<lparr>type = EvTask, data = TaskData example_task, date = Some 1740960000000\<rparr>]
   \<and> getDateClassName 0
       (CalendarPage_generateCalendarEvents 0 [example_subject] [example_task]
          (Some 1740787200000) (Some 1741305600000))
       (Some 1740960000000) = className Mixed
   \<and> getDateClassName 0
       (CalendarPage_generateCalendarEvents 0 [example_subject] [example_task]
          (Some 1740787200000) (Some 1741305600000))
       (Some 1741564800000) = className Empty"
  by code_simp

text \<open>
  The zone of New York in 2025: five hours behind UTC, with daylight-saving time from
  2025-03-09T07:00:00Z (two in the morning, which becomes three) until
  2025-11-02T06:00:00Z (two in the morning, which becomes one). No midnight falls in
  the hour the clock skips or in the hour it shows twice, so midnight is regular.
\<close>

definition example_zone :: zone where
  "example_zone = \<lparr>standard = - 300,
                   summer = (\<lambda>t. 1741503600000 \<le> t \<and> t < 1762063200000)\<rparr>"

lemma multiple_of_day_outside:
  fixes d k a b :: int
  assumes "k * msPerDay + a \<le> d * msPerDay" "d * msPerDay < k * msPerDay + b"
    and "0 < a" "b \<le> msPerDay"
  shows False
proof (cases "d \<le> k")
  case True
  then have "d * 86400000 \<le> k * 86400000" by simp
  then show False using assms by (simp add: msPerDay_def)
next
  case False
  then have "k + 1 \<le> d" by simp
  then have "(k + 1) * 86400000 \<le> d * 86400000" by (simp only: mult_le_cancel_right) simp
  then show False using assms by (simp add: msPerDay_def algebra_simps)
qed

lemma example_zone_regular: "regular_at example_zone 0"
proof -
  have a: "\<not> (1741485600000 \<le> d * msPerDay \<and> d * msPerDay < 1741489200000)" for d :: int
    using multiple_of_day_outside [of 20156 7200000 d 10800000]
    by (simp add: msPerDay_def)
  have b: "\<not> (1762045200000 \<le> d * msPerDay \<and> d * msPerDay < 1762048800000)" for d :: int
    using multiple_of_day_outside [of 20394 3600000 d 7200000]
    by (simp add: msPerDay_def)
  have 1: "LocalTime_in example_zone (UTC_in example_zone (d * msPerDay + 0)) = d * msPerDay + 0"
    for d
    using a [of d] b [of d]
    by (simp add: LocalTime_in_def UTC_in_def example_zone_def msPerMinute_def) linarith
  have 2: "(UTC_in example_zone (d * msPerDay + 0) \<le> t)
             = (d * msPerDay + 0 \<le> LocalTime_in example_zone t)" for d t
    using a [of d] b [of d]
    by (simp add: LocalTime_in_def UTC_in_def example_zone_def msPerMinute_def) linarith
  show ?thesis unfolding regular_at_def using 1 2 by blast
qed

text \<open>
  A zone that sets its clock forward at midnight, as Cuba does: five hours behind UTC,
  with daylight-saving time from 2025-03-09T05:00:00Z (midnight, which becomes one in
  the morning) until 2025-11-02T05:00:00Z (one in the morning, which becomes midnight).
  Midnight is not regular there, but the local days are whole: in March 2025, from the
  start of the 1st (05:00 UTC) to the end of the 31st (03:59:59.999 UTC on 1 April), the
  loop visits 9 March at one in the morning and the days after it at that time, and the
  class of Mondays has its five occurrences.
\<close>

definition example_zone_midnight :: zone where
  "example_zone_midnight = \<lparr>standard = - 300,
                            summer = (\<lambda>t. 1741496400000 \<le> t \<and> t < 1762059600000)\<rparr>"

lemma example_zone_midnight_whole: "whole_days example_zone_midnight"
proof -
  have a: "\<not> (1741478400000 < d * msPerDay \<and> d * msPerDay < 1741482000000)" for d :: int
    using multiple_of_day_outside [of 20156 1 d 3600000]
    by (simp add: msPerDay_def)
  have b: "\<not> (1762041600000 < d * msPerDay \<and> d * msPerDay < 1762045200000)" for d :: int
    using multiple_of_day_outside [of 20394 1 d 3600000]
    by (simp add: msPerDay_def)
  have 1: "(UTC_in example_zone_midnight (d * msPerDay) \<le> t)
             = (d \<le> Day (LocalTime_in example_zone_midnight t))" for d t
    unfolding le_Day
    using a [of d] b [of d]
    by (simp add: LocalTime_in_def UTC_in_def example_zone_midnight_def msPerMinute_def)
       linarith
  have r: "LocalTime_in example_zone_midnight (UTC_in example_zone_midnight l) = l
         \<or> (LocalTime_in example_zone_midnight (UTC_in example_zone_midnight l) = l + 3600000
            \<and> 20156 * msPerDay \<le> l \<and> l < 20156 * msPerDay + 3600000)" for l
    by (simp add: LocalTime_in_def UTC_in_def example_zone_midnight_def msPerMinute_def
          msPerDay_def)
  have 2: "Day (LocalTime_in example_zone_midnight
                 (UTC_in example_zone_midnight (LocalTime_in example_zone_midnight t + msPerDay)))
             = Day (LocalTime_in example_zone_midnight t) + 1" for t
  proof -
    define l where "l = LocalTime_in example_zone_midnight t + msPerDay"
    have dl: "Day l = Day (LocalTime_in example_zone_midnight t) + 1"
      unfolding l_def by (rule Day_next)
    have "Day (LocalTime_in example_zone_midnight (UTC_in example_zone_midnight l)) = Day l"
    proof (rule disjE [OF r [of l]])
      assume "LocalTime_in example_zone_midnight (UTC_in example_zone_midnight l) = l"
      then show ?thesis by simp
    next
      assume h: "LocalTime_in example_zone_midnight (UTC_in example_zone_midnight l) = l + 3600000
            \<and> 20156 * msPerDay \<le> l \<and> l < 20156 * msPerDay + 3600000"
      have "Day (20156 * msPerDay + (l - 20156 * msPerDay)) = 20156"
        using h by (intro Day_of_split) (simp_all add: msPerDay_def)
      moreover have "Day (20156 * msPerDay + (l + 3600000 - 20156 * msPerDay)) = 20156"
        using h by (intro Day_of_split) (simp_all add: msPerDay_def)
      ultimately show ?thesis using h by simp
    qed
    then show ?thesis using dl unfolding l_def by simp
  qed
  show ?thesis unfolding whole_days_def using 1 2 by blast
qed

lemma example_zone_midnight_not_regular: "\<not> regular_at example_zone_midnight 0"
proof
  assume "regular_at example_zone_midnight 0"
  then have "LocalTime_in example_zone_midnight (UTC_in example_zone_midnight (20156 * msPerDay + 0))
      = 20156 * msPerDay + 0"
    unfolding regular_at_def by blast
  then show False
    by (simp add: LocalTime_in_def UTC_in_def example_zone_midnight_def msPerMinute_def
          msPerDay_def)
qed

lemma skipped_midnight_month:
  "length (filter (\<lambda>x. type x = EvSubject \<and> data x = SubjectData example_subject)
      (CalendarPage_generateCalendarEvents_in example_zone_midnight [example_subject]
         [example_task] (Some 1740805200000) (Some 1743479999999))) = 5"
proof -
  have e: "LocalTime_in example_zone_midnight 1743479999999 = 1743465599999"
    and s: "LocalTime_in example_zone_midnight 1740805200000 = 1740787200000"
    by (simp_all add: LocalTime_in_def example_zone_midnight_def msPerMinute_def)
  have u: "UTC_in example_zone_midnight 1743465600000 = 1743480000000"
    by (simp add: UTC_in_def example_zone_midnight_def msPerMinute_def)
  have l: "UTC_in example_zone_midnight
             ((Day (LocalTime_in example_zone_midnight 1743479999999) + 1) * msPerDay)
           = 1743479999999 + 1"
    by (simp add: e u Day_def msPerDay_def)
  show ?thesis
    using subject_occurrences_to_end_of_day [OF example_zone_midnight_whole l,
            where sub = example_subject and subjects = "[example_subject]"
              and tasks = "[example_task]" and s = 1740805200000]
    by (simp add: s e Day_def msPerDay_def weekday_of_day_def example_subject_def)
qed

section \<open>Claims about the materializers and the bucketer\<close>

text \<open>
  C3. Day classification follows the stated precedence, first match wins, for the set of
  events of any day: a subject event together with an incomplete task gives "mixed";
  subject events and no incomplete task give "class"; an incomplete task and no subject
  event gives "pending-task"; completed tasks only give "completed-task"; no event gives
  "empty". In particular a day with a subject event and no task that is not completed
  is "class", and neither "mixed" nor "completed-task".
\<close>

theorem day_classification_precedence:
  fixes tz :: int and events :: "CalendarEvent list" and d :: jsdate
  defines "dayEvents \<equiv> getEventsForDate tz events d"
  defines "cls \<equiv> getDateClassName tz events d"
  defines "hasSubject \<equiv> (\<exists>e \<in> set dayEvents. type e = EvSubject)"
  defines "hasPending \<equiv>
    (\<exists>e \<in> set dayEvents. type e = EvTask \<and> \<not> data_is_completed (data e))"
  shows "(hasSubject \<and> hasPending \<longrightarrow> cls = className Mixed)
       \<and> (hasSubject \<and> \<not> hasPending \<longrightarrow> cls = className Class)
       \<and> (\<not> hasSubject \<and> hasPending \<longrightarrow> cls = className PendingTask)
       \<and> (dayEvents \<noteq> []
            \<and> (\<forall>e \<in> set dayEvents. type e = EvTask \<and> data_is_completed (data e))
            \<longrightarrow> cls = className CompletedTask)
       \<and> (dayEvents = [] \<longrightarrow> cls = className Empty)
       \<and> (hasSubject
            \<and> (\<forall>e \<in> set dayEvents. type e = EvTask \<longrightarrow> data_is_completed (data e))
            \<longrightarrow> cls = className Class \<and> cls \<noteq> className Mixed
                \<and> cls \<noteq> className CompletedTask)"
  unfolding cls_def hasSubject_def hasPending_def dayEvents_def
  by (auto simp: getDateClassName_def Let_def className_def list_ex_iff)

theorem day_classification_precedence_witness:
  "getDateClassName 0
     [\<lparr>type = EvSubject, data = SubjectData example_subject, date = Some 1740960000000\<rparr>,
      \<lparr>type = EvTask, data = TaskData (example_task\<lparr>is_completed := True\<rparr>),
        date = Some 1740960000000\<rparr>]
     (Some 1740990000000) = className Class"
  using day_classification_precedence [of 0
     "[\<lparr>type = EvSubject, data = SubjectData example_subject, date = Some 1740960000000\<rparr>,
       \<lparr>type = EvTask, data = TaskData (example_task\<lparr>is_completed := True\<rparr>),
         date = Some 1740960000000\<rparr>]"
     "Some 1740990000000"]
  by (simp add: getEventsForDate_def isSameDay_def data_is_completed_def Day_def
        LocalTime_def msPerDay_def)

text \<open>
  C4. For every subject list, every range from \<open>s\<close> to \<open>e\<close> with \<open>s\<close> not
  after \<open>e\<close>, and every subject, the calendar page's materializer emits, for each
  listing of the subject, exactly one occurrence per day of the subject's weekday among
  the local days from that of \<open>s\<close> to that of \<open>e\<close>; so none when no day of the
  range has that weekday. The bounds are instants, and they stand for a range of
  calendar days when the local time of day of \<open>s\<close> is not after that of \<open>e\<close>,
  as with the bounds the page passes, the start of the first and the end of the last
  day of a month. The zone may have daylight-saving time; the time of day of \<open>s\<close> is
  a regular one, which the clock shows once on every day. (For a range that runs to the
  last millisecond of a day, lemma \<open>subject_occurrences_to_end_of_day\<close> gives the
  same count also where the clock skips the time of day of \<open>s\<close>.)
\<close>

theorem subject_occurrence_count:
  assumes "regular_at z (TimeWithinDay (LocalTime_in z s))"
    and "s \<le> e"
    and "TimeWithinDay (LocalTime_in z s) \<le> TimeWithinDay (LocalTime_in z e)"
  shows "length (filter (\<lambda>x. type x = EvSubject \<and> data x = SubjectData sub)
      (CalendarPage_generateCalendarEvents_in z subjects tasks (Some s) (Some e)))
   = count_list subjects sub
     * length (filter (\<lambda>d. weekday_of_day d = day_of_week sub)
         [Day (LocalTime_in z s) .. Day (LocalTime_in z e)])
   \<and> ((\<forall>d \<in> {Day (LocalTime_in z s) .. Day (LocalTime_in z e)}.
          weekday_of_day d \<noteq> day_of_week sub)
        \<longrightarrow> filter (\<lambda>x. type x = EvSubject \<and> data x = SubjectData sub)
              (CalendarPage_generateCalendarEvents_in z subjects tasks (Some s) (Some e))
            = [])"
proof -
  define tod where "tod = TimeWithinDay (LocalTime_in z s)"
  define tod_e where "tod_e = TimeWithinDay (LocalTime_in z e)"
  define Ds where "Ds = Day (LocalTime_in z s)"
  define De where "De = Day (LocalTime_in z e)"
  have reg: "regular_at z tod" using assms(1) by (simp add: tod_def)
  have tod: "0 \<le> tod" "tod \<le> tod_e" "tod_e < msPerDay"
    using assms(3) by (simp_all add: tod_def tod_e_def TimeWithinDay_def msPerDay_def)
  have Ls: "LocalTime_in z s = Ds * msPerDay + tod"
    by (simp add: Ds_def tod_def Day_def TimeWithinDay_def)
  have Le: "LocalTime_in z e = De * msPerDay + tod_e"
    by (simp add: De_def tod_e_def Day_def TimeWithinDay_def)
  have "UTC_in z (Ds * msPerDay + tod) \<le> s"
    using reg Ls unfolding regular_at_def by simp
  then have "UTC_in z (Ds * msPerDay + tod) \<le> e" using assms(2) by simp
  then have "Ds * msPerDay + tod \<le> De * msPerDay + tod_e"
    using reg Le unfolding regular_at_def by simp
  then have "Ds \<le> De" using split_le [OF tod] by simp
  then have cmp: "(s \<le> e) = (Ds \<le> De)" using assms(2) by simp
  have t: "filter (\<lambda>x. type x = EvSubject \<and> data x = SubjectData sub)
      (map (\<lambda>task. \<lparr>type = EvTask, data = TaskData task,
                      date = Date_parse_in z (due_date task @ ''T00:00:00'')\<rparr>) tasks) = []"
    by (induction tasks) simp_all
  have n: "length (filter (\<lambda>x. type x = EvSubject \<and> data x = SubjectData sub)
      (CalendarPage_generateCalendarEvents_in z subjects tasks (Some s) (Some e)))
   = count_list subjects sub
     * length (filter (\<lambda>d. weekday_of_day d = day_of_week sub)
         [Day (LocalTime_in z s) .. Day (LocalTime_in z e)])"
    using CalendarPage_subjectLoop_in_count [OF reg tod Le Ls cmp, of sub subjects "[]"] t
    by (simp add: page_events_in Ds_def De_def)
  have none: "filter (\<lambda>x. type x = EvSubject \<and> data x = SubjectData sub)
              (CalendarPage_generateCalendarEvents_in z subjects tasks (Some s) (Some e))
            = []"
    if h: "\<forall>d \<in> {Day (LocalTime_in z s) .. Day (LocalTime_in z e)}.
          weekday_of_day d \<noteq> day_of_week sub"
  proof -
    have "filter (\<lambda>d. weekday_of_day d = day_of_week sub)
          [Day (LocalTime_in z s) .. Day (LocalTime_in z e)] = []"
      using h by (simp add: filter_empty_conv)
    then have "length (filter (\<lambda>x. type x = EvSubject \<and> data x = SubjectData sub)
        (CalendarPage_generateCalendarEvents_in z subjects tasks (Some s) (Some e))) = 0"
      by (simp only: n list.size mult_0_right)
    then show ?thesis by (simp only: length_0_conv)
  qed
  show ?thesis using n none by blast
qed

text \<open>
  November 2025 in New York, where the clock is set back on 2 November: from the start
  of 1 November (04:00 UTC) to the end of 30 November (04:59:59.999 UTC on 1 December)
  the class of Mondays has four occurrences, on the 3rd, 10th, 17th and 24th.
\<close>

theorem subject_occurrence_count_witness:
  "length (filter (\<lambda>x. type x = EvSubject \<and> data x = SubjectData example_subject)
      (CalendarPage_generateCalendarEvents_in example_zone [example_subject] [example_task]
         (Some 1761969600000) (Some 1764565199999))) = 4"
proof -
  have s: "LocalTime_in example_zone 1761969600000 = 1761955200000"
    and e: "LocalTime_in example_zone 1764565199999 = 1764547199999"
    by (simp_all add: LocalTime_in_def example_zone_def msPerMinute_def)
  show ?thesis
    using subject_occurrence_count [of example_zone 1761969600000 1764565199999
            example_subject "[example_subject]" "[example_task]"] example_zone_regular
    by (simp add: s e Day_def TimeWithinDay_def msPerDay_def weekday_of_day_def
          example_subject_def)
qed

text \<open>
  C5. For every task of the input list the calendar page's materializer emits exactly
  one occurrence, whatever the range: the task events are, in order, one per entry of
  the task list, each carrying its task; and the occurrences of a task are as many as
  its entries in the list.
\<close>

theorem one_occurrence_per_task:
  "filter (\<lambda>e. type e = EvTask)
      (CalendarPage_generateCalendarEvents tz subjects tasks monthStart monthEnd)
     = map (\<lambda>task. \<lparr>type = EvTask, data = TaskData task,
                      date = Date_parse tz (due_date task @ ''T00:00:00'')\<rparr>) tasks
   \<and> length (filter (\<lambda>e. data e = TaskData t)
         (CalendarPage_generateCalendarEvents tz subjects tasks monthStart monthEnd))
     = count_list tasks t"
proof -
  let ?loop = "case (monthStart, monthEnd) of
        (Some s, Some e) \<Rightarrow> CalendarPage_subjectLoop tz subjects s e []
      | _ \<Rightarrow> []"
  have a: "filter (\<lambda>e. type e = EvTask) ?loop = []"
    using CalendarPage_subjectLoop_filter [where Q = "\<lambda>e. type e = EvTask" and events = "[]"]
    by (simp split: option.splits)
  have b: "filter (\<lambda>e. data e = TaskData t) ?loop = []"
    using CalendarPage_subjectLoop_filter
            [where Q = "\<lambda>e. data e = TaskData t" and events = "[]"]
    by (simp split: option.splits)
  show ?thesis
    unfolding page_events
    by (simp only: filter_append a b count_task_map append_Nil) (simp add: filter_id_conv)
qed

theorem one_occurrence_per_task_witness:
  "filter (\<lambda>e. type e = EvTask)
      (CalendarPage_generateCalendarEvents 0 [example_subject] [example_task]
         (Some 1743465600000) (Some 1746057599999))
     = [\<lparr>type = EvTask, data = TaskData example_task, date = Some 1740960000000\<rparr>]
   \<and> length (filter (\<lambda>e. data e = TaskData example_task)
         (CalendarPage_generateCalendarEvents 0 [example_subject] [example_task]
            (Some 1743465600000) (Some 1746057599999))) = 1"
  using one_occurrence_per_task [of 0 "[example_subject]" "[example_task]"
          "Some 1743465600000" "Some 1746057599999" example_task]
  by (simp add: example_task_date)

text \<open>
  C8. On the same subjects, tasks and range, the two materializers emit the same subject
  occurrences, and the same sequence of tags and rows; they differ at most in the
  \<open>date\<close> of the task occurrences (the page parses the due date with
  \<open>T00:00:00\<close> appended, the widget parses it bare).
\<close>

theorem materializers_agree:
  "filter (\<lambda>e. type e = EvSubject)
      (CalendarWidget_generateCalendarEvents tz subjects tasks monthStart monthEnd)
     = filter (\<lambda>e. type e = EvSubject)
         (CalendarPage_generateCalendarEvents tz subjects tasks monthStart monthEnd)
   \<and> map (\<lambda>e. (type e, data e))
         (CalendarWidget_generateCalendarEvents tz subjects tasks monthStart monthEnd)
     = map (\<lambda>e. (type e, data e))
         (CalendarPage_generateCalendarEvents tz subjects tasks monthStart monthEnd)"
  by (simp add: page_events widget_events)

theorem materializers_agree_witness:
  "map (\<lambda>e. (type e, data e))
      (CalendarWidget_generateCalendarEvents (-300) [example_subject] [example_task]
         (Some 1740978000000) (Some 1740978000000))
   = [(EvSubject, SubjectData example_subject), (EvTask, TaskData example_task)]"
proof -
  have "CalendarPage_generateCalendarEvents (-300) [example_subject] [example_task]
         (Some 1740978000000) (Some 1740978000000)
     = [\<lparr>type = EvSubject, data = SubjectData example_subject, date = Some 1740978000000\<rparr>,
        \<lparr>type = EvTask, data = TaskData example_task, date = Some 1740978000000\<rparr>]"
    by code_simp
  then show ?thesis
    using materializers_agree [of "-300" "[example_subject]" "[example_task]"
            "Some 1740978000000" "Some 1740978000000"]
    by simp
qed

text \<open>
  C10. Called with a range start strictly after the range end, either materializer
  returns (both are total functions), emits no subject occurrence, and emits exactly the
  one occurrence per task of the input list.
\<close>

theorem inverted_range:
  assumes "monthEnd < monthStart"
  shows "filter (\<lambda>e. type e = EvSubject)
           (CalendarPage_generateCalendarEvents tz subjects tasks
              (Some monthStart) (Some monthEnd)) = []
       \<and> filter (\<lambda>e. type e = EvSubject)
           (CalendarWidget_generateCalendarEvents tz subjects tasks
              (Some monthStart) (Some monthEnd)) = []
       \<and> CalendarPage_generateCalendarEvents tz subjects tasks (Some monthStart) (Some monthEnd)
           = map (\<lambda>task. \<lparr>type = EvTask, data = TaskData task,
                            date = Date_parse tz (due_date task @ ''T00:00:00'')\<rparr>) tasks
       \<and> CalendarWidget_generateCalendarEvents tz subjects tasks
             (Some monthStart) (Some monthEnd)
           = map (\<lambda>task. \<lparr>type = EvTask, data = TaskData task,
                            date = Date_parse tz (due_date task)\<rparr>) tasks"
  using assms
  by (simp add: page_events widget_events CalendarPage_subjectLoop_stop)

theorem inverted_range_witness:
  "(1740787200000 :: int) < 1743465599999
   \<and> CalendarPage_generateCalendarEvents 0 [example_subject] [example_task]
        (Some 1743465599999) (Some 1740787200000)
      = [\<lparr>type = EvTask, data = TaskData example_task, date = Some 1740960000000\<rparr>]
   \<and> CalendarWidget_generateCalendarEvents 0 [example_subject] [example_task]
        (Some 1743465599999) (Some 1740787200000)
      = [\<lparr>type = EvTask, data = TaskData example_task, date = Some 1740960000000\<rparr>]"
  using inverted_range [of 1740787200000 1743465599999 0 "[example_subject]" "[example_task]"]
  by (simp add: example_task_date example_task_date_widget)

section \<open>Dates as strings\<close>

text \<open>Printing a number of at most four digits, and reading it back.\<close>

lemma nat_to_string_1: "n < 10 \<Longrightarrow> nat_to_string n = [char_of_digit n]"
  by (subst nat_to_string.simps) simp

lemma nat_to_string_2:
  "10 \<le> n \<Longrightarrow> n < 100 \<Longrightarrow> nat_to_string n = [char_of_digit (n div 10), char_of_digit (n mod 10)]"
  by (subst nat_to_string.simps) (simp add: nat_to_string_1)

lemma nat_to_string_3:
  assumes "100 \<le> n" "n < 1000"
  shows "nat_to_string n = [char_of_digit (n div 100), char_of_digit (n div 10 mod 10), char_of_digit (n mod 10)]"
proof -
  have a: "10 \<le> n div 10" "n div 10 < 100" using assms by simp_all
  have b: "n div 10 div 10 = n div 100" by (simp add: div_mult2_eq [symmetric])
  have "nat_to_string n = nat_to_string (n div 10) @ [char_of_digit (n mod 10)]"
    using assms by (subst nat_to_string.simps) simp
  then show ?thesis by (simp only: nat_to_string_2 [OF a] b append.simps)
qed

lemma nat_to_string_4:
  assumes "1000 \<le> n" "n < 10000"
  shows "nat_to_string n = [char_of_digit (n div 1000), char_of_digit (n div 100 mod 10),
                      char_of_digit (n div 10 mod 10), char_of_digit (n mod 10)]"
proof -
  have a: "100 \<le> n div 10" "n div 10 < 1000" using assms by simp_all
  have b: "n div 10 div 100 = n div 1000" "n div 10 div 10 = n div 100"
    by (simp_all add: div_mult2_eq [symmetric])
  have "nat_to_string n = nat_to_string (n div 10) @ [char_of_digit (n mod 10)]"
    using assms by (subst nat_to_string.simps) simp
  then show ?thesis by (simp only: nat_to_string_3 [OF a] b append.simps)
qed

lemma digit_roundtrip: "n < 10 \<Longrightarrow> digit_of_char (char_of_digit n) = Some n"
  by (simp add: digit_of_char_def char_of_digit_def)

lemma char_of_digit_0: "char_of_digit 0 = CHR ''0''"
  by code_simp

lemma parse_nat_2:
  "a < 10 \<Longrightarrow> b < 10 \<Longrightarrow> parse_nat [char_of_digit a, char_of_digit b] = Some (10 * a + b)"
  by (simp add: parse_nat_def digit_roundtrip)

lemma parse_nat_4:
  "a < 10 \<Longrightarrow> b < 10 \<Longrightarrow> c < 10 \<Longrightarrow> d < 10 \<Longrightarrow>
   parse_nat [char_of_digit a, char_of_digit b, char_of_digit c, char_of_digit d]
     = Some (1000 * a + 100 * b + 10 * c + d)"
  by (simp add: parse_nat_def digit_roundtrip)

lemma digits_4:
  fixes n :: nat
  shows "1000 * (n div 1000) + 100 * (n div 100 mod 10) + 10 * (n div 10 mod 10) + n mod 10 = n"
proof -
  have a: "n = 10 * (n div 10) + n mod 10" by simp
  have "n div 10 = 10 * (n div 10 div 10) + n div 10 mod 10" by simp
  then have b: "n div 10 = 10 * (n div 100) + n div 10 mod 10"
    by (simp add: div_mult2_eq [symmetric])
  have "n div 100 = 10 * (n div 100 div 10) + n div 100 mod 10" by simp
  then have c: "n div 100 = 10 * (n div 1000) + n div 100 mod 10"
    by (simp add: div_mult2_eq [symmetric])
  show ?thesis using a b c by linarith
qed

lemma pad_digits:
  assumes "0 \<le> n" "n < 100"
  shows "pad n = [char_of_digit (nat n div 10), char_of_digit (nat n mod 10)]"
proof (cases "n < 10")
  case True
  then have "nat n < 10" by simp
  then have "nat_to_string (nat n) = [char_of_digit (nat n)]" by (rule nat_to_string_1)
  then show ?thesis using assms True
    by (simp add: pad_def padStart_def Number_toString_def char_of_digit_0)
next
  case False
  then have "10 \<le> nat n" "nat n < 100" using assms by simp_all
  then have "nat_to_string (nat n) = [char_of_digit (nat n div 10), char_of_digit (nat n mod 10)]"
    by (rule nat_to_string_2)
  then show ?thesis using assms
    by (simp add: pad_def padStart_def Number_toString_def)
qed

lemma char_of_digit_1: "char_of_digit (Suc 0) = CHR ''1''"
  by code_simp

text \<open>
  A date printed with a four-digit year, a two-digit month and a two-digit day reads back
  as the same three numbers.
\<close>

lemma parse_date_fields_printed:
  assumes y: "1000 \<le> y" "y \<le> 9999" and m: "1 \<le> m" "m \<le> 12" and d: "1 \<le> d" "d \<le> 31"
  shows "parse_date_fields (Number_toString y @ ''-'' @ pad m @ ''-'' @ pad d) = Some (y, m, d)"
proof -
  define yn where "yn = nat y"
  define mn where "mn = nat m"
  define dn where "dn = nat d"
  have yn: "1000 \<le> yn" "yn < 10000" using y by (simp_all add: yn_def)
  have mn: "1 \<le> mn" "mn \<le> 12" using m by (simp_all add: mn_def)
  have dn: "1 \<le> dn" "dn \<le> 31" using d by (simp_all add: dn_def)
  have i: "int yn = y" "int mn = m" "int dn = d"
    using y m d by (simp_all add: yn_def mn_def dn_def)
  define Y where "Y = [char_of_digit (yn div 1000), char_of_digit (yn div 100 mod 10),
                      char_of_digit (yn div 10 mod 10), char_of_digit (yn mod 10)]"
  define M where "M = [char_of_digit (mn div 10), char_of_digit (mn mod 10)]"
  define D where "D = [char_of_digit (dn div 10), char_of_digit (dn mod 10)]"
  have Y: "Number_toString y = Y"
    using y nat_to_string_4 [OF yn] by (simp add: Number_toString_def yn_def Y_def)
  have M: "pad m = M"
    using m by (simp add: pad_digits mn_def M_def)
  have D: "pad d = D"
    using d by (simp add: pad_digits dn_def D_def)
  have py: "parse_nat Y = Some yn"
    unfolding Y_def using yn by (subst parse_nat_4) (simp_all add: digits_4)
  have pm: "parse_nat M = Some mn"
    unfolding M_def using mn by (subst parse_nat_2) simp_all
  have pd: "parse_nat D = Some dn"
    unfolding D_def using dn by (subst parse_nat_2) simp_all
  have l: "length Y = 4" "length M = 2" "length D = 2" by (simp_all add: Y_def M_def D_def)
  have s: "Number_toString y @ ''-'' @ pad m @ ''-'' @ pad d = Y @ CHR ''-'' # M @ CHR ''-'' # D"
    by (simp add: Y M D)
  have t: "take 4 (Y @ CHR ''-'' # M @ CHR ''-'' # D) = Y"
    "take 2 (drop 5 (Y @ CHR ''-'' # M @ CHR ''-'' # D)) = M"
    "drop 8 (Y @ CHR ''-'' # M @ CHR ''-'' # D) = D"
    "(Y @ CHR ''-'' # M @ CHR ''-'' # D) ! 4 = CHR ''-''"
    "(Y @ CHR ''-'' # M @ CHR ''-'' # D) ! 7 = CHR ''-''"
    "length (Y @ CHR ''-'' # M @ CHR ''-'' # D) = 10"
    by (simp_all add: Y_def M_def D_def)
  show ?thesis
    unfolding s parse_date_fields_def t py pm pd
    using mn dn by (simp add: i)
qed

text \<open>The civil date of a day number has a month from 1 to 12 and a day from 1 to 31.\<close>

lemma civil_from_days_fields:
  assumes "civil_from_days n = (y, m, d)"
  shows "1 \<le> m" "m \<le> 12" "1 \<le> d" "d \<le> 31"
proof -
  define z where "z = n + 719468"
  define r where "r = z mod 146097"
  obtain yoe doy where s: "doe_split r = (yoe, doy)" by (cases "doe_split r")
  have r: "0 \<le> r" "r < 146097" by (simp_all add: r_def)
  note j = doe_split_join [OF r s]
  define A where "A = 5 * doy + 2"
  define mp where "mp = A div 153"
  define B where "B = (153 * mp + 2) div 5"
  have "civil_from_days n =
      (if (if mp < 10 then mp + 3 else mp - 9) \<le> 2 then 400 * (z div 146097) + yoe + 1
       else 400 * (z div 146097) + yoe,
       if mp < 10 then mp + 3 else mp - 9, doy - B + 1)"
    using s unfolding r_def z_def
    by (simp add: civil_from_days_def Let_def mp_def A_def B_def z_def)
  with assms have m: "m = (if mp < 10 then mp + 3 else mp - 9)" and d: "d = doy - B + 1"
    by auto
  have A: "153 * mp \<le> A" "A < 153 * mp + 153"
  proof -
    have "A = mp * 153 + A mod 153" by (simp add: mp_def)
    moreover have "0 \<le> A mod 153" "A mod 153 < 153" by simp_all
    ultimately show "153 * mp \<le> A" "A < 153 * mp + 153" by linarith+
  qed
  have B: "5 * B \<le> 153 * mp + 2" "153 * mp + 2 < 5 * B + 5"
  proof -
    have "153 * mp + 2 = B * 5 + (153 * mp + 2) mod 5" by (simp add: B_def)
    moreover have "0 \<le> (153 * mp + 2) mod 5" "(153 * mp + 2) mod 5 < 5" by simp_all
    ultimately show "5 * B \<le> 153 * mp + 2" "153 * mp + 2 < 5 * B + 5" by linarith+
  qed
  have mp: "0 \<le> mp" "mp \<le> 11" using A j(4,5) unfolding A_def by linarith+
  show "1 \<le> m" "m \<le> 12" using mp by (simp_all add: m)
  show "1 \<le> d" using A(1) B(1) unfolding d A_def by linarith
  show "d \<le> 31" using A(2) B(2) unfolding d A_def by linarith
qed

lemma parse_time_fields_midnight: "parse_time_fields ''T00:00:00'' = Some 0"
  by (simp add: parse_time_fields_def parse_nat_def digit_of_char_def)

text \<open>
  The two ways of building a \<open>Date\<close> from a due date: with \<open>T00:00:00\<close> appended
  the string is read as local midnight of the day it names, and bare it is read as
  midnight UTC of that day.
\<close>

lemma Date_parse_local:
  assumes "parse_date_fields s = Some (y, m, d)"
  shows "Date_parse tz (s @ ''T00:00:00'') = Some (local_midnight tz (days_from_civil y m d))"
proof -
  have l: "length s = 10" using assms by (simp add: parse_date_fields_def split: if_splits)
  then show ?thesis
    using assms by (simp add: Date_parse_def parse_time_fields_midnight local_midnight_def)
qed

lemma Date_parse_utc:
  assumes "parse_date_fields s = Some (y, m, d)"
  shows "Date_parse tz s = Some (days_from_civil y m d * msPerDay)"
proof -
  have l: "length s = 10" using assms by (simp add: parse_date_fields_def split: if_splits)
  then show ?thesis using assms by (simp add: Date_parse_def)
qed

lemma Day_local_midnight: "Day (LocalTime tz (local_midnight tz n)) = n"
  by (simp add: local_midnight_def UTC_def LocalTime_def Day_def msPerDay_def)

lemma TaskForm_localDate_parse:
  assumes "1000 \<le> getFullYear tz picked" "getFullYear tz picked \<le> 9999"
  shows "parse_date_fields (TaskForm_localDate tz picked)
           = Some (getFullYear tz picked, getMonth tz picked + 1, getDate tz picked)"
proof -
  obtain y m d where c: "civil_from_days (Day (LocalTime tz picked)) = (y, m, d)"
    by (cases "civil_from_days (Day (LocalTime tz picked))")
  note f = civil_from_days_fields [OF c]
  have g: "getFullYear tz picked = y" "getMonth tz picked + 1 = m" "getDate tz picked = d"
    by (simp_all add: getFullYear_def getMonth_def getDate_def c)
  show ?thesis
    unfolding TaskForm_localDate_def g
    using assms f by (intro parse_date_fields_printed) (simp_all add: g)
qed

lemma date_2025_03_01: "parse_date_fields ''2025-03-01'' = Some (2025, 3, 1)"
  by (simp add: parse_date_fields_def parse_nat_def digit_of_char_def)

text \<open>
  In every zone behind UTC (by at most a day), midnight UTC of a day is on the local day
  before it: there the bare reading of a due date is a day early.
\<close>

lemma utc_midnight_day_behind:
  assumes "- 1440 \<le> tz" "tz < 0"
  shows "Day (LocalTime tz (n * msPerDay)) = n - 1"
proof -
  have "n * msPerDay + tz * msPerMinute = (n - 1) * msPerDay + (msPerDay + tz * msPerMinute)"
    by (simp add: algebra_simps)
  moreover have "0 \<le> msPerDay + tz * msPerMinute" "msPerDay + tz * msPerMinute < msPerDay"
    using assms by (simp_all add: msPerDay_def msPerMinute_def)
  ultimately have "(n * msPerDay + tz * msPerMinute) div msPerDay = n - 1"
    by (simp add: div_pos_pos_trivial msPerDay_def)
  then show ?thesis by (simp add: Day_def LocalTime_def)
qed

section \<open>Claims about the due date of a task\<close>

text \<open>
  C2. The occurrence of a task is to be dated on the local calendar day its
  \<open>due_date\<close> names, in both materializers. The calendar page does so; the calendar
  widget does not. In a zone five hours behind UTC, for a task due on \<open>2025-03-01\<close>,
  whatever the subjects and the range: the widget's occurrence is at midnight UTC, which
  is local 2025-02-28 (19:00), while the page's occurrence is at local midnight of
  2025-03-01.
\<close>

theorem widget_task_on_previous_day:
  "filter (\<lambda>e. type e = EvTask)
     (CalendarWidget_generateCalendarEvents (-300) subjects
        [example_task\<lparr>due_date := ''2025-03-01''\<rparr>] monthStart monthEnd)
     = [\<lparr>type = EvTask, data = TaskData (example_task\<lparr>due_date := ''2025-03-01''\<rparr>),
         date = Some 1740787200000\<rparr>]
   \<and> civil_from_days (Day (LocalTime (-300) 1740787200000)) = (2025, 2, 28)
   \<and> filter (\<lambda>e. type e = EvTask)
     (CalendarPage_generateCalendarEvents (-300) subjects
        [example_task\<lparr>due_date := ''2025-03-01''\<rparr>] monthStart monthEnd)
     = [\<lparr>type = EvTask, data = TaskData (example_task\<lparr>due_date := ''2025-03-01''\<rparr>),
         date = Some 1740805200000\<rparr>]
   \<and> civil_from_days (Day (LocalTime (-300) 1740805200000)) = (2025, 3, 1)"
proof -
  have l: "filter (\<lambda>e. type e = EvTask)
      (case (monthStart, monthEnd) of
         (Some s, Some e) \<Rightarrow> CalendarPage_subjectLoop (-300) subjects s e []
       | _ \<Rightarrow> []) = []"
    using CalendarPage_subjectLoop_filter [where Q = "\<lambda>e. type e = EvTask" and events = "[]"]
    by (simp split: option.splits)
  have d: "days_from_civil 2025 3 1 = 20148" by (simp add: days_from_civil_def)
  have w: "Date_parse (-300) ''2025-03-01'' = Some 1740787200000"
    by (simp add: Date_parse_utc [OF date_2025_03_01] d msPerDay_def)
  have p: "Date_parse (-300) (''2025-03-01'' @ ''T00:00:00'') = Some 1740805200000"
    by (simp only: Date_parse_local [OF date_2025_03_01] d)
       (simp add: local_midnight_def UTC_def msPerDay_def msPerMinute_def)
  have c1: "civil_from_days (Day (LocalTime (-300) 1740787200000)) = (2025, 2, 28)"
    by code_simp
  have c2: "civil_from_days (Day (LocalTime (-300) 1740805200000)) = (2025, 3, 1)"
    by code_simp
  show ?thesis
    by (simp only: page_events widget_events filter_append l c1 c2)
       (simp add: w p [simplified])
qed

text \<open>
  C9, as amended. For every date picked in the task form whose local year has four
  digits (1000 to 9999), the form stores the string \<open>YYYY-MM-DD\<close> of the local year,
  month and day, zero-padded (it reads back as exactly these three numbers), and the
  calendar page's materializer dates the task's occurrence at local midnight of the
  picked day, so on the same local calendar day.
\<close>

theorem due_date_round_trip:
  assumes "1000 \<le> getFullYear tz picked" "getFullYear tz picked \<le> 9999"
  shows "parse_date_fields (TaskForm_localDate tz picked)
           = Some (getFullYear tz picked, getMonth tz picked + 1, getDate tz picked)
       \<and> filter (\<lambda>e. type e = EvTask)
           (CalendarPage_generateCalendarEvents tz subjects
              [t\<lparr>due_date := TaskForm_localDate tz picked\<rparr>] monthStart monthEnd)
         = [\<lparr>type = EvTask, data = TaskData (t\<lparr>due_date := TaskForm_localDate tz picked\<rparr>),
             date = Some (local_midnight tz (Day (LocalTime tz picked)))\<rparr>]
       \<and> isSameDay tz (Some (local_midnight tz (Day (LocalTime tz picked)))) (Some picked)"
proof -
  obtain y m d where c: "civil_from_days (Day (LocalTime tz picked)) = (y, m, d)"
    by (cases "civil_from_days (Day (LocalTime tz picked))")
  have g: "getFullYear tz picked = y" "getMonth tz picked + 1 = m" "getDate tz picked = d"
    by (simp_all add: getFullYear_def getMonth_def getDate_def c)
  have p: "parse_date_fields (TaskForm_localDate tz picked) = Some (y, m, d)"
    using TaskForm_localDate_parse [OF assms] by (simp add: g)
  have "Date_parse tz (TaskForm_localDate tz picked @ ''T00:00:00'')
      = Some (local_midnight tz (Day (LocalTime tz picked)))"
    by (simp add: Date_parse_local [OF p] days_from_civil_inverse [OF c])
  moreover have "filter (\<lambda>e. type e = EvTask)
      (case (monthStart, monthEnd) of
         (Some s, Some e) \<Rightarrow> CalendarPage_subjectLoop tz subjects s e []
       | _ \<Rightarrow> []) = []"
    using CalendarPage_subjectLoop_filter [where Q = "\<lambda>e. type e = EvTask" and events = "[]"]
    by (simp split: option.splits)
  ultimately show ?thesis
    by (simp add: p g page_events isSameDay_def Day_local_midnight)
qed

theorem due_date_round_trip_witness:
  "TaskForm_localDate (-300) 1740805200000 = ''2025-03-01''
   \<and> filter (\<lambda>e. type e = EvTask)
        (CalendarPage_generateCalendarEvents (-300) []
           [example_task\<lparr>due_date := TaskForm_localDate (-300) 1740805200000\<rparr>] None None)
      = [\<lparr>type = EvTask, data = TaskData (example_task\<lparr>due_date := ''2025-03-01''\<rparr>),
          date = Some 1740805200000\<rparr>]"
proof -
  have y: "getFullYear (-300) 1740805200000 = 2025" by code_simp
  have s: "TaskForm_localDate (-300) 1740805200000 = ''2025-03-01''" by code_simp
  have m: "local_midnight (-300) (Day (LocalTime (-300) 1740805200000)) = 1740805200000"
    by code_simp
  show ?thesis
    using due_date_round_trip [of "-300" 1740805200000 "[]" example_task None None]
    by (simp add: y s m)
qed

text \<open>
  C9 as stated, for every date the form lets the user pick, fails beyond the year 9999
  (the form only disables the days before today): the year is printed without padding
  or truncation, and 1 January 10000 is stored as an eleven-character string.
\<close>

theorem five_digit_year_not_padded:
  "getFullYear 0 253402300800000 = 10000
   \<and> TaskForm_localDate 0 253402300800000 = ''10000-01-01''
   \<and> length (TaskForm_localDate 0 253402300800000) \<noteq> 10"
proof -
  have c: "civil_from_days (Day (LocalTime 0 253402300800000)) = (10000, 1, 1)"
    by code_simp
  have "nat_to_string 10000 = nat_to_string 1000 @ [char_of_digit 0]"
    by (subst nat_to_string.simps) simp
  then have y: "Number_toString 10000 = ''10000''"
    by (simp add: Number_toString_def nat_to_string_4 char_of_digit_0 char_of_digit_1)
  have p: "pad 1 = ''01''"
    by (simp add: pad_digits char_of_digit_0 char_of_digit_1)
  show ?thesis
    by (simp add: TaskForm_localDate_def getFullYear_def getMonth_def getDate_def c y p)
qed

section \<open>Claims about the store\<close>

text \<open>
  C1, as amended. Deleting a subject deletes its dependent tasks with it, as the foreign
  key's \<open>ON DELETE CASCADE\<close> says: after \<open>deleteSubject(S.id)\<close> has succeeded for a
  subject \<open>S\<close> of the store, the tasks left are exactly the tasks that did not
  reference \<open>S\<close>, unchanged and in their order; no task that referenced \<open>S\<close> is
  left, and \<open>S\<close> is gone.
\<close>

theorem delete_subject_cascades:
  fixes S :: subject and d :: db and subjects :: "subject list"
  assumes "S \<in> set (public_subjects d)"
  defines "d' \<equiv> snd (fst (SubjectsPage_deleteSubject None (subj_id S) (subjects, d)))"
  shows "public_tasks d' = filter (\<lambda>T. subject_id T \<noteq> Some (subj_id S)) (public_tasks d)
       \<and> (\<forall>T \<in> set (public_tasks d).
             subject_id T = Some (subj_id S) \<longrightarrow> T \<notin> set (public_tasks d'))
       \<and> (\<forall>T \<in> set (public_tasks d).
             subject_id T \<noteq> Some (subj_id S) \<longrightarrow> T \<in> set (public_tasks d'))
       \<and> S \<notin> set (public_subjects d')"
proof -
  have "public_tasks d'
      = filter (\<lambda>t. case subject_id t of
                       None \<Rightarrow> True
                     | Some r \<Rightarrow> r \<notin> set (map subj_id
                         (filter (\<lambda>s. subj_id s = subj_id S) (public_subjects d))))
               (public_tasks d)"
    by (simp add: d'_def SubjectsPage_deleteSubject_def delete_subject_def Let_def
          del: set_map set_filter)
  also have "\<dots> = filter (\<lambda>T. subject_id T \<noteq> Some (subj_id S)) (public_tasks d)"
    using assms(1) by (intro filter_cong refl) (auto split: option.splits)
  finally have t: "public_tasks d'
      = filter (\<lambda>T. subject_id T \<noteq> Some (subj_id S)) (public_tasks d)" .
  have s: "S \<notin> set (public_subjects d')"
    by (simp add: d'_def SubjectsPage_deleteSubject_def delete_subject_def Let_def)
  show ?thesis using t s by simp
qed

theorem delete_subject_cascades_witness:
  "public_tasks (snd (fst (SubjectsPage_deleteSubject None ''s1''
      ([example_subject],
       \<lparr>public_subjects = [example_subject],
        public_tasks = [example_task, example_task\<lparr>task_id := ''t2'', subject_id := None\<rparr>]\<rparr>))))
   = [example_task\<lparr>task_id := ''t2'', subject_id := None\<rparr>]"
  using delete_subject_cascades [of example_subject
      "\<lparr>public_subjects = [example_subject],
        public_tasks = [example_task, example_task\<lparr>task_id := ''t2'', subject_id := None\<rparr>]\<rparr>"
      "[example_subject]"]
  by (simp add: example_subject_def example_task_def)

text \<open>
  C1 as stated, that a task referencing the deleted subject stays with its reference
  removed, fails: with one subject and one task that references it, the store is empty
  after the deletion.
\<close>

theorem delete_subject_deletes_tasks:
  "subject_id example_task = Some (subj_id example_subject)
   \<and> fst (SubjectsPage_deleteSubject None (subj_id example_subject)
        ([example_subject],
         \<lparr>public_subjects = [example_subject], public_tasks = [example_task]\<rparr>))
     = ([], \<lparr>public_subjects = [], public_tasks = []\<rparr>)"
  by (simp add: SubjectsPage_deleteSubject_def delete_subject_def example_subject_def
        example_task_def)

text \<open>
  C6, as amended. A toggle changes, in the page's copy of the task, the flag
  \<open>is_completed\<close> alone. In the stored row it changes \<open>is_completed\<close> and
  \<open>updated_at\<close> and nothing else: the flag becomes the negation of the flag of the
  page's copy, and \<open>updated_at\<close> the time of the update, which the update trigger
  sets. Toggling twice returns the page's list to what it was, and leaves the stored row
  with the flag the page's copy had at first and with the time of the second toggle in
  \<open>updated_at\<close>. So when the page's copy and the stored row agreed on the flag
  before the first toggle, as they do after a fetch, the stored row is back to what it
  was except for \<open>updated_at\<close>.
\<close>

theorem toggle_twice:
  fixes task :: task and tasks :: "task list" and d :: db and now1 now2 :: int
  defines "st1 \<equiv> fst (TasksPage_toggleTaskComplete None now1 task (tasks, d))"
  defines "st2 \<equiv> fst (TasksPage_toggleTaskComplete None now2
                          (task\<lparr>is_completed := \<not> is_completed task\<rparr>) st1)"
  shows "fst st1 = map (\<lambda>t. if task_id t = task_id task
                            then t\<lparr>is_completed := \<not> is_completed t\<rparr> else t) tasks
       \<and> public_tasks (snd st1)
           = map (\<lambda>r. if task_id r = task_id task
                       then r\<lparr>is_completed := \<not> is_completed task, updated_at := now1\<rparr>
                       else r)
                 (public_tasks d)
       \<and> public_subjects (snd st1) = public_subjects d
       \<and> fst st2 = tasks
       \<and> public_tasks (snd st2)
           = map (\<lambda>r. if task_id r = task_id task
                       then r\<lparr>is_completed := is_completed task, updated_at := now2\<rparr>
                       else r)
                 (public_tasks d)
       \<and> public_subjects (snd st2) = public_subjects d
       \<and> ((\<forall>r \<in> set (public_tasks d).
              task_id r = task_id task \<longrightarrow> is_completed r = is_completed task)
            \<longrightarrow> public_tasks (snd st2)
                  = map (\<lambda>r. if task_id r = task_id task then r\<lparr>updated_at := now2\<rparr> else r)
                        (public_tasks d))"
proof -
  have a: "fst st1 = map (\<lambda>t. if task_id t = task_id task
                            then t\<lparr>is_completed := \<not> is_completed t\<rparr> else t) tasks"
    by (simp add: st1_def TasksPage_toggleTaskComplete_def)
  have b: "public_tasks (snd st1)
           = map (\<lambda>r. if task_id r = task_id task
                       then r\<lparr>is_completed := \<not> is_completed task, updated_at := now1\<rparr>
                       else r)
                 (public_tasks d)"
    by (simp add: st1_def TasksPage_toggleTaskComplete_def update_task_is_completed_def)
  have b': "public_subjects (snd st1) = public_subjects d"
    by (simp add: st1_def TasksPage_toggleTaskComplete_def update_task_is_completed_def)
  have c: "fst st2 = tasks"
    by (simp add: st2_def st1_def TasksPage_toggleTaskComplete_def map_idI)
  have e: "public_tasks (snd st2)
           = map (\<lambda>r. if task_id r = task_id task
                       then r\<lparr>is_completed := is_completed task, updated_at := now2\<rparr>
                       else r)
                 (public_tasks d)"
    by (simp add: st2_def st1_def TasksPage_toggleTaskComplete_def update_task_is_completed_def)
  have f: "public_subjects (snd st2) = public_subjects d"
    by (simp add: st2_def st1_def TasksPage_toggleTaskComplete_def update_task_is_completed_def)
  have g: "public_tasks (snd st2)
             = map (\<lambda>r. if task_id r = task_id task then r\<lparr>updated_at := now2\<rparr> else r)
                   (public_tasks d)"
    if "\<forall>r \<in> set (public_tasks d).
          task_id r = task_id task \<longrightarrow> is_completed r = is_completed task"
    unfolding e using that by (intro map_cong refl) auto
  show ?thesis using a b b' c e f g by blast
qed

theorem toggle_twice_witness:
  "fst (fst (TasksPage_toggleTaskComplete None 2000 (example_task\<lparr>is_completed := True\<rparr>)
      (fst (TasksPage_toggleTaskComplete None 1000 example_task
        ([example_task],
         \<lparr>public_subjects = [example_subject], public_tasks = [example_task]\<rparr>)))))
     = [example_task]
   \<and> public_tasks (snd (fst (TasksPage_toggleTaskComplete None 2000
        (example_task\<lparr>is_completed := True\<rparr>)
        (fst (TasksPage_toggleTaskComplete None 1000 example_task
          ([example_task],
           \<lparr>public_subjects = [example_subject], public_tasks = [example_task]\<rparr>))))))
     = [example_task\<lparr>updated_at := 2000\<rparr>]"
  using toggle_twice [of 1000 example_task "[example_task]"
      "\<lparr>public_subjects = [example_subject], public_tasks = [example_task]\<rparr>" 2000]
  by (simp add: example_task_def)

text \<open>
  C6 as stated, that a toggle alters no field other than \<open>is_completed\<close> and that two
  toggles restore the task, fails on the stored row: \<open>updated_at\<close> moves with each
  toggle.
\<close>

theorem toggle_changes_updated_at:
  "public_tasks (snd (fst (TasksPage_toggleTaskComplete None 1000 example_task
        ([example_task],
         \<lparr>public_subjects = [example_subject], public_tasks = [example_task]\<rparr>))))
     = [example_task\<lparr>is_completed := True, updated_at := 1000\<rparr>]
   \<and> updated_at (example_task\<lparr>is_completed := True, updated_at := 1000\<rparr>)
       \<noteq> updated_at example_task
   \<and> public_tasks (snd (fst (TasksPage_toggleTaskComplete None 2000
        (example_task\<lparr>is_completed := True\<rparr>)
        (fst (TasksPage_toggleTaskComplete None 1000 example_task
          ([example_task],
           \<lparr>public_subjects = [example_subject], public_tasks = [example_task]\<rparr>))))))
     = [example_task\<lparr>updated_at := 2000\<rparr>]
   \<and> example_task\<lparr>updated_at := 2000\<rparr> \<noteq> example_task"
  by (simp add: TasksPage_toggleTaskComplete_def update_task_is_completed_def example_task_def)

text \<open>
  When the page's copy is stale, the flag of the stored row does not come back either.
  Here the stored row is completed (another session completed it) and the page's copy is
  not: the first toggle writes "completed" again, the second writes "not completed",
  and the row that was completed ends not completed.
\<close>

lemma toggle_twice_stale_copy:
  "public_tasks (snd (fst (TasksPage_toggleTaskComplete None 2000
        (example_task\<lparr>is_completed := True\<rparr>)
        (fst (TasksPage_toggleTaskComplete None 1000 example_task
          ([example_task],
           \<lparr>public_subjects = [example_subject],
            public_tasks = [example_task\<lparr>is_completed := True\<rparr>]\<rparr>))))))
     = [example_task\<lparr>is_completed := False, updated_at := 2000\<rparr>]
   \<and> is_completed (example_task\<lparr>is_completed := True\<rparr>)
   \<and> \<not> is_completed (example_task\<lparr>is_completed := False, updated_at := 2000\<rparr>)"
  by (simp add: TasksPage_toggleTaskComplete_def update_task_is_completed_def example_task_def)

section \<open>Claims about the notification poller\<close>

text \<open>
  The reminders among the alerts of a run are those of the third block. It emits at most
  one alert, of medium priority, and none unless the local time has hour 8 and minute 0.
\<close>

lemma no_reminder_among_classes:
  "filter (\<lambda>n. n_type n = NReminder) (classesStartingSoon tz now failure d) = []"
proof -
  have c: "filter (\<lambda>n. n_type n = NReminder) (class_alert tz now s) = []" for s
    by (simp add: class_alert_def Let_def split: list.splits option.splits)
  have "filter (\<lambda>n. n_type n = NReminder) (concat (map (class_alert tz now) ss)) = []" for ss
    by (induction ss) (simp_all add: c)
  then show ?thesis
    by (simp add: classesStartingSoon_def split: option.splits)
qed

lemma no_reminder_among_due_today:
  "filter (\<lambda>n. n_type n = NReminder) (tasksDueToday tz now failure d) = []"
proof -
  have "filter (\<lambda>n. n_type n = NReminder) (map (task_alert now d) ts) = []" for ts
    by (induction ts) (simp_all add: task_alert_def)
  then show ?thesis
    by (simp add: tasksDueToday_def split: option.splits)
qed

lemma tasksDueTomorrow_reminders:
  "list_all (\<lambda>n. n_type n = NReminder \<and> n_priority n = Medium)
     (tasksDueTomorrow tz now failure d)"
  by (cases "select_tasks_due failure d
               (split_first (CHR ''T'') (toISOString (setDate tz now (getDate tz now + 1))))")
     (simp_all add: tasksDueTomorrow_def Let_def)

lemma reminders_of_check:
  "filter (\<lambda>n. n_type n = NReminder) (checkUpcomingItems tz now failure1 failure2 failure3 d)
     = tasksDueTomorrow tz now failure3 d"
proof -
  have "\<forall>n \<in> set (tasksDueTomorrow tz now failure3 d). n_type n = NReminder"
    using tasksDueTomorrow_reminders [of tz now failure3 d] by (simp add: list_all_iff)
  then have "filter (\<lambda>n. n_type n = NReminder) (tasksDueTomorrow tz now failure3 d)
      = tasksDueTomorrow tz now failure3 d"
    by (simp only: filter_id_conv)
  then show ?thesis
    by (simp add: checkUpcomingItems_def no_reminder_among_classes no_reminder_among_due_today)
qed

lemma reminder_gate:
  "tasksDueTomorrow tz now failure d \<noteq> [] \<Longrightarrow> getHours tz now = 8 \<and> getMinutes tz now = 0"
  by (simp add: tasksDueTomorrow_def Let_def split: if_splits)

lemma at_most_one_reminder: "length (tasksDueTomorrow tz now failure d) \<le> 1"
  by (cases "select_tasks_due failure d
               (split_first (CHR ''T'') (toISOString (setDate tz now (getDate tz now + 1))))")
     (simp_all add: tasksDueTomorrow_def Let_def)

text \<open>
  The date the third block asks for is the UTC date of \<open>tomorrow\<close>. At local hour 8
  that is the local date of tomorrow in the zones from UTC-15 up to UTC+8.
\<close>

lemma char_of_digit_not_T: "k < 10 \<Longrightarrow> char_of_digit k \<noteq> CHR ''T''"
proof
  assume k: "k < 10" and e: "char_of_digit k = CHR ''T''"
  have "digit_of_char (CHR ''T'') = None" by (simp add: digit_of_char_def)
  with digit_roundtrip [OF k] e show False by simp
qed

lemma toISOString_date:
  assumes c: "civil_from_days (Day t) = (y, m, d)" and y: "1000 \<le> y" "y \<le> 9999"
  shows "split_first (CHR ''T'') (toISOString t)
           = Number_toString y @ ''-'' @ pad m @ ''-'' @ pad d"
proof -
  note f = civil_from_days_fields [OF c]
  define yn where "yn = nat y"
  have yn: "1000 \<le> yn" "yn < 10000" using y by (simp_all add: yn_def)
  have Y: "Number_toString y = [char_of_digit (yn div 1000), char_of_digit (yn div 100 mod 10),
                      char_of_digit (yn div 10 mod 10), char_of_digit (yn mod 10)]"
    using y nat_to_string_4 [OF yn] by (simp add: Number_toString_def yn_def)
  have M: "pad m = [char_of_digit (nat m div 10), char_of_digit (nat m mod 10)]"
    using f by (intro pad_digits) simp_all
  have D: "pad d = [char_of_digit (nat d div 10), char_of_digit (nat d mod 10)]"
    using f by (intro pad_digits) simp_all
  have p4: "padStart 4 (CHR ''0'') (Number_toString y) = Number_toString y"
    by (simp add: padStart_def Y)
  have n: "\<forall>x \<in> set (Number_toString y @ ''-'' @ pad m @ ''-'' @ pad d). x \<noteq> CHR ''T''"
    using yn f unfolding Y M D
    by (simp add: char_of_digit_not_T)
  have "toISOString t = (Number_toString y @ ''-'' @ pad m @ ''-'' @ pad d)
      @ CHR ''T'' # (pad2 (TimeWithinDay t div msPerHour) @ '':''
          @ pad2 (TimeWithinDay t div msPerMinute mod 60) @ '':''
          @ pad2 (TimeWithinDay t div msPerSecond mod 60) @ ''.''
          @ padStart 3 (CHR ''0'') (Number_toString (TimeWithinDay t mod msPerSecond)) @ ''Z'')"
    using y by (simp add: toISOString_def c p4 pad_def pad2_def)
  then show ?thesis
    using n by (simp only: split_first_def takeWhile_append2) simp
qed

lemma Day_at_eight:
  assumes h: "getHours tz now = 8" and tz: "- 900 \<le> tz" "tz \<le> 480"
  shows "Day now = Day (LocalTime tz now)"
proof -
  define L where "L = LocalTime tz now"
  define r where "r = L mod msPerDay"
  have r: "0 \<le> r" "r < msPerDay" by (simp_all add: r_def msPerDay_def)
  have a: "r div 3600000 = 8"
    using h by (simp add: getHours_def TimeWithinDay_def L_def r_def msPerHour_def)
  have "r = 3600000 * (r div 3600000) + r mod 3600000" by simp
  moreover have "0 \<le> r mod 3600000" "r mod 3600000 < 3600000" by simp_all
  ultimately have r8: "28800000 \<le> r" "r < 32400000" using a by linarith+
  have "L = (L div msPerDay) * msPerDay + r" by (simp add: r_def)
  moreover have "now = L - tz * msPerMinute" by (simp add: L_def LocalTime_def)
  ultimately have now: "now = (L div msPerDay) * msPerDay + (r - tz * msPerMinute)"
    by linarith
  have b: "0 \<le> r - tz * msPerMinute" "r - tz * msPerMinute < msPerDay"
    using r8 tz by (simp_all add: msPerMinute_def msPerDay_def)
  have "now div msPerDay = L div msPerDay"
    by (subst now) (use b in \<open>simp add: div_pos_pos_trivial\<close>)
  then show ?thesis by (simp add: Day_def L_def)
qed

lemma tomorrow_utc_date:
  assumes h: "getHours tz now = 8" and tz: "- 900 \<le> tz" "tz \<le> 480"
    and y: "1000 \<le> getFullYear tz (now + msPerDay)" "getFullYear tz (now + msPerDay) \<le> 9999"
  shows "split_first (CHR ''T'') (toISOString (setDate tz now (getDate tz now + 1)))
           = TaskForm_localDate tz (now + msPerDay)"
proof -
  have e: "Day (now + msPerDay) = Day (LocalTime tz (now + msPerDay))"
    by (simp add: Day_next LocalTime_add Day_at_eight [OF h tz])
  obtain yy m d where c: "civil_from_days (Day (now + msPerDay)) = (yy, m, d)"
    by (cases "civil_from_days (Day (now + msPerDay))")
  have c': "civil_from_days (Day (LocalTime tz (now + msPerDay))) = (yy, m, d)"
    using c by (simp only: e)
  have g: "getFullYear tz (now + msPerDay) = yy" "getMonth tz (now + msPerDay) + 1 = m"
    "getDate tz (now + msPerDay) = d"
    by (simp_all add: getFullYear_def getMonth_def getDate_def c')
  have "split_first (CHR ''T'') (toISOString (now + msPerDay))
      = Number_toString yy @ ''-'' @ pad m @ ''-'' @ pad d"
    using y by (intro toISOString_date [OF c]) (simp_all add: g)
  then show ?thesis
    by (simp only: setDate_next TaskForm_localDate_def g)
qed

text \<open>
  In those zones the block does what its title says (for a year of four digits, and when
  the gateway answers): at 08:00 local time the reminders of a run are one medium-priority
  summary of the incomplete tasks whose due date is the local date of tomorrow, when
  there is such a task, and none otherwise.
\<close>

theorem reminder_up_to_utc8:
  assumes "getHours tz now = 8" and "getMinutes tz now = 0"
    and "- 900 \<le> tz" and "tz \<le> 480"
    and "1000 \<le> getFullYear tz (now + msPerDay)" and "getFullYear tz (now + msPerDay) \<le> 9999"
  shows "filter (\<lambda>n. n_type n = NReminder)
           (checkUpcomingItems tz now failure1 failure2 None d)
         = (let dueTomorrow =
                  filter (\<lambda>t. due_date t = TaskForm_localDate tz (now + msPerDay)
                               \<and> \<not> is_completed t) (public_tasks d)
            in if dueTomorrow = [] then []
               else [\<lparr>n_type = NReminder, n_title = ''Pengingat Tugas Besok'',
                      n_message = ''Kamu memiliki ''
                        @ Number_toString (int (length dueTomorrow))
                        @ '' tugas yang jatuh tempo besok'',
                      n_time = Some now, n_priority = Medium,
                      n_data = TasksOf dueTomorrow\<rparr>])"
proof -
  note t = tomorrow_utc_date [OF assms(1,3,4,5,6)]
  show ?thesis
    unfolding reminders_of_check
    by (simp add: tasksDueTomorrow_def select_tasks_due_def Let_def t assms(1,2))
qed

text \<open>
  C7. The reminder for the tasks due tomorrow is emitted only at 08:00 local time (hour
  8, minute 0), as one medium-priority summary when an incomplete task is due tomorrow
  and not at all when none is. The gate, the count and the priority hold (lemmas
  \<open>reminder_gate\<close>, \<open>at_most_one_reminder\<close>, \<open>tasksDueTomorrow_reminders\<close>). What is
  asked of the gateway is not tomorrow's local date east of UTC+8, where 08:00 local time
  is still the day before in UTC. In a zone nine hours ahead of UTC, at 08:00 local time
  on 2025-03-01: an incomplete task due on 2025-03-02 gets no reminder, and a task due on
  2025-03-01, today, gets the reminder for tomorrow.
\<close>

theorem reminder_missed_east_of_utc8:
  "getHours 540 1740783600000 = 8 \<and> getMinutes 540 1740783600000 = 0
   \<and> civil_from_days (Day (LocalTime 540 1740783600000)) = (2025, 3, 1)
   \<and> is_completed example_task = False
   \<and> checkUpcomingItems 540 1740783600000 None None None
        \<lparr>public_subjects = [], public_tasks = [example_task\<lparr>due_date := ''2025-03-02''\<rparr>]\<rparr>
      = []
   \<and> map n_type
        (checkUpcomingItems 540 1740783600000 None None None
          \<lparr>public_subjects = [], public_tasks = [example_task\<lparr>due_date := ''2025-03-01''\<rparr>]\<rparr>)
      = [NReminder]"
  by code_simp

end
